theory Spec2Isabelle
  imports Main
begin

section \<open>The Mint contract: collateralized debt positions\<close>

text \<open>
  A shallow embedding of the Solidity contract \<open>Mint\<close>. Addresses and unsigned
  256-bit integers are natural numbers; the address \<open>0\<close> is \<open>address(0)\<close>. Every
  \<open>require\<close>, every checked arithmetic operation and every out-of-range array access
  is a branch that returns an error. A failing call returns the error together with the
  world as it stood when the failure was raised; \<open>transact\<close> then discards that world,
  as the revert of the enclosing transaction does.
\<close>

subsection \<open>Checked arithmetic\<close>

type_synonym address = nat

definition MAX_UINT :: nat where
  "MAX_UINT = 2 ^ 256 - 1"

text \<open>SafeMath of OpenZeppelin: each operation reverts instead of wrapping.\<close>

definition add_checked :: "nat \<Rightarrow> nat \<Rightarrow> nat option" where
  "add_checked a b = (if a + b > MAX_UINT then None else Some (a + b))"

definition sub_checked :: "nat \<Rightarrow> nat \<Rightarrow> nat option" where
  "sub_checked a b = (if b > a then None else Some (a - b))"

definition mul_checked :: "nat \<Rightarrow> nat \<Rightarrow> nat option" where
  "mul_checked a b = (if a * b > MAX_UINT then None else Some (a * b))"

definition div_checked :: "nat \<Rightarrow> nat \<Rightarrow> nat option" where
  "div_checked a b = (if b = 0 then None else Some (a div b))"

text \<open>
  Modelled from the spec: the library \<open>libraries/SafeDecimalMath.sol\<close> is imported by
  the contract but is not among the sources. The spec fixes its convention: fixed-point
  numbers, with truncation toward zero on division. The unit is taken to be \<open>10^18\<close>, the
  scale of the amounts in the deployment scripts and tests (\<open>toUnit\<close>);
  \<open>multiplyDecimal x y\<close> is \<open>x.mul(y) / unit\<close> and \<open>divideDecimal x y\<close> is
  \<open>x.mul(unit).div(y)\<close>, on SafeMath operations.
\<close>

definition unit :: nat where
  "unit = 1000000000000000000"

definition multiplyDecimal :: "nat \<Rightarrow> nat \<Rightarrow> nat option" where
  "multiplyDecimal x y =
     (case mul_checked x y of None \<Rightarrow> None | Some p \<Rightarrow> Some (p div unit))"

definition divideDecimal :: "nat \<Rightarrow> nat \<Rightarrow> nat option" where
  "divideDecimal x y =
     (case mul_checked x unit of None \<Rightarrow> None | Some p \<Rightarrow> div_checked p y)"

subsection \<open>Data\<close>

record AssetConfig =
  token :: address
  auctionDiscount :: nat
  minCollateralRatio :: nat
  endPrice :: nat

record Position =
  idx :: nat
  owner :: address
  collateralToken :: address
  collateralAmount :: nat
  assetToken :: address
  assetAmount :: nat

text \<open>The value a Solidity mapping holds at a key never written (or deleted).\<close>

definition zeroAssetConfig :: AssetConfig where
  "zeroAssetConfig = \<lparr>token = 0, auctionDiscount = 0, minCollateralRatio = 0, endPrice = 0\<rparr>"

definition zeroPosition :: Position where
  "zeroPosition = \<lparr>idx = 0, owner = 0, collateralToken = 0, collateralAmount = 0,
                   assetToken = 0, assetAmount = 0\<rparr>"

text \<open>
  The storage of the contract. \<open>mFactory\<close> \dots \<open>mPriceExpireTime\<close> are the private
  members \<open>_factory\<close> \dots \<open>_priceExpireTime\<close>; \<open>contractOwner\<close> and \<open>initialized\<close>
  are the storage of \<open>OwnableUpgradeable\<close> and of the \<open>initializer\<close> modifier.
\<close>

record mint_state =
  contractOwner :: address
  initialized :: bool
  mFactory :: address
  mOracle :: address
  mCollector :: address
  mBaseToken :: address
  mProtocolFeeRate :: nat
  mPriceExpireTime :: nat
  assetConfigMap :: "address \<Rightarrow> AssetConfig"
  assetTokenArray :: "address list"
  idxPositionMap :: "nat \<Rightarrow> Position"
  postionIdxArray :: "nat list"
  currentpositionIndex :: nat
  ownerPositionIndex :: "address \<Rightarrow> address \<Rightarrow> address \<Rightarrow> nat"

text \<open>Calls to the token contracts: the token called comes first.\<close>

datatype extcall =
    TransferFrom address address address nat
  | Transfer address address nat
  | MintTo address address nat
  | BurnFrom address address nat

datatype callres = Returned bool | Reverted

text \<open>
  The world is the contract's storage and the token calls issued so far. The environment
  of a call is the caller, the contract's own address, the block time, the oracle
  (\<open>IOracle(oracle).queryPrice(asset)\<close>) and the behaviour of the token contracts, which
  may depend on the calls already made.
\<close>

record world =
  ledger :: mint_state
  calls :: "extcall list"

record env =
  msgSender :: address
  thisAddress :: address
  blockTimestamp :: nat
  oracleQueryPrice :: "address \<Rightarrow> address \<Rightarrow> nat \<times> nat"
  tokenCall :: "extcall list \<Rightarrow> extcall \<Rightarrow> callres"

datatype error =
    InvalidParameter
  | Unauthorized
  | NotRegistered
  | AlreadyRegistered
  | AssetDeprecated
  | BelowMinimumRatio
  | PositionSafe
  | StalePrice
  | ZeroPrice
  | TransferFailed
  | AmountTooSmall
  | NothingToClose
  | FeeRateZero
  | AlreadyInitialized
  | MathError
  | IndexOutOfBounds
  | ExternalRevert

type_synonym 'a result = "(error \<times> world) + ('a \<times> world)"

definition transact :: "(world \<Rightarrow> 'a result) \<Rightarrow> world \<Rightarrow> (error + 'a) \<times> world" where
  "transact operation w =
     (case operation w of
        Inl (err, _) \<Rightarrow> (Inl err, w)
      | Inr (r, w') \<Rightarrow> (Inr r, w'))"

definition callToken :: "env \<Rightarrow> extcall \<Rightarrow> world \<Rightarrow> bool result" where
  "callToken e c w =
     (let w' = w\<lparr>calls := calls w @ [c]\<rparr>
      in case tokenCall e (calls w) c of
           Reverted \<Rightarrow> Inl (ExternalRevert, w')
         | Returned b \<Rightarrow> Inr (b, w'))"

subsection \<open>Storage helpers\<close>

definition saveAssetConfig :: "address \<Rightarrow> AssetConfig \<Rightarrow> mint_state \<Rightarrow> mint_state" where
  "saveAssetConfig assetToken' assetConfig s =
     s\<lparr>assetTokenArray :=
          (if assetToken' \<in> set (assetTokenArray s) then assetTokenArray s
           else assetTokenArray s @ [assetToken']),
       assetConfigMap := (assetConfigMap s)(assetToken' := assetConfig)\<rparr>"

definition savePosition :: "nat \<Rightarrow> Position \<Rightarrow> mint_state \<Rightarrow> mint_state" where
  "savePosition positionIndex position s =
     s\<lparr>postionIdxArray :=
          (if positionIndex \<in> set (postionIdxArray s) then postionIdxArray s
           else postionIdxArray s @ [positionIndex]),
       idxPositionMap := (idxPositionMap s)(positionIndex := position)\<rparr>"

text \<open>
  The loop of \<open>removePosition\<close>: \<open>len\<close> is the length read before the loop, \<open>i\<close> the
  loop counter. \<open>delete postionIdxArray[length - 1]\<close> writes zero to the last slot; the
  length of the array stays as it is.
\<close>

function removeLoop :: "nat \<Rightarrow> nat \<Rightarrow> nat \<Rightarrow> nat list \<Rightarrow> nat list" where
  "removeLoop positionIndex len i arr =
     (if i < len then
        removeLoop positionIndex len (Suc i)
          (if arr ! i = positionIndex then
             (if i \<noteq> len - 1 then arr[i := arr ! (len - 1)] else arr)[len - 1 := 0]
           else arr)
      else arr)"
  by pat_completeness auto
termination
  by (relation "measure (\<lambda>(positionIndex, len, i, arr). len - i)") auto

declare removeLoop.simps [simp del]

definition removePosition :: "nat \<Rightarrow> mint_state \<Rightarrow> mint_state" where
  "removePosition positionIndex s =
     (let s1 = s\<lparr>idxPositionMap := (idxPositionMap s)(positionIndex := zeroPosition)\<rparr>
      in s1\<lparr>postionIdxArray :=
              removeLoop positionIndex (length (postionIdxArray s1)) 0 (postionIdxArray s1)\<rparr>)"

subsection \<open>Prices\<close>

definition readPrice :: "env \<Rightarrow> mint_state \<Rightarrow> address \<Rightarrow> nat \<times> nat" where
  "readPrice e s tok =
     (if mBaseToken s = tok then (unit, 2 ^ 256 - 1)
      else oracleQueryPrice e (mOracle s) tok)"

definition queryPrice :: "env \<Rightarrow> mint_state \<Rightarrow> address \<Rightarrow> address \<Rightarrow> error + nat" where
  "queryPrice e s targetAssetToken denominateAssetToken =
     (let (tokenPrice, lastUpdatedTime) = readPrice e s targetAssetToken;
          (denominateTokenPrice, denominateLastUpdatedTime) = readPrice e s denominateAssetToken
      in if \<not> tokenPrice > 0 then Inl ZeroPrice
         else if \<not> denominateTokenPrice > 0 then Inl ZeroPrice
         else case divideDecimal tokenPrice denominateTokenPrice of
           None \<Rightarrow> Inl MathError
         | Some relativePrice \<Rightarrow>
             (case sub_checked (blockTimestamp e) (mPriceExpireTime s) of
                None \<Rightarrow> Inl MathError
              | Some requiredTime \<Rightarrow>
                  if \<not> (lastUpdatedTime \<ge> requiredTime \<and> denominateLastUpdatedTime \<ge> requiredTime)
                  then Inl StalePrice
                  else Inr relativePrice))"

definition isValidPostion :: "mint_state \<Rightarrow> Position \<Rightarrow> nat \<Rightarrow> error + bool" where
  "isValidPostion s position assetPrice =
     (case multiplyDecimal (assetAmount position) assetPrice of
        None \<Rightarrow> Inl MathError
      | Some assetValue \<Rightarrow>
          (case divideDecimal (collateralAmount position) assetValue of
             None \<Rightarrow> Inl MathError
           | Some currentCollateralRatio \<Rightarrow>
               Inr (currentCollateralRatio \<ge> minCollateralRatio (assetConfigMap s (assetToken position)))))"

subsection \<open>Configuration and the asset registry\<close>

text \<open>
  A parameter that has the name of a record field carries a prime. The modifiers
  \<open>onlyOwner\<close> and \<open>onlyFactoryOrOwner\<close> are the first check of the functions that
  carry them; events are not modelled.
\<close>

definition onLedger :: "(mint_state \<Rightarrow> mint_state) \<Rightarrow> world \<Rightarrow> world" where
  "onLedger f w = w\<lparr>ledger := f (ledger w)\<rparr>"

definition onlyFactoryOrOwner :: "env \<Rightarrow> mint_state \<Rightarrow> bool" where
  "onlyFactoryOrOwner e s = (mFactory s = msgSender e \<or> contractOwner s = msgSender e)"

definition updateConfig_priv ::
  "address \<Rightarrow> address \<Rightarrow> address \<Rightarrow> address \<Rightarrow> nat \<Rightarrow> nat \<Rightarrow> mint_state \<Rightarrow> mint_state" where
  "updateConfig_priv factory oracle collector baseToken protocolFeeRate priceExpireTime s =
     s\<lparr>mFactory := factory, mOracle := oracle, mCollector := collector,
       mBaseToken := baseToken, mProtocolFeeRate := protocolFeeRate,
       mPriceExpireTime := priceExpireTime\<rparr>"

definition initialize ::
  "env \<Rightarrow> address \<Rightarrow> address \<Rightarrow> address \<Rightarrow> address \<Rightarrow> nat \<Rightarrow> nat \<Rightarrow> world \<Rightarrow> unit result" where
  "initialize e factory oracle collector baseToken protocolFeeRate priceExpireTime w =
     (if initialized (ledger w) then Inl (AlreadyInitialized, w)
      else
        let w1 = onLedger (\<lambda>s. s\<lparr>initialized := True\<rparr>) w;
            w2 = onLedger (\<lambda>s. s\<lparr>contractOwner := msgSender e\<rparr>) w1;
            w3 = onLedger (\<lambda>s. s\<lparr>currentpositionIndex := 1\<rparr>) w2
        in if \<not> protocolFeeRate \<le> unit then Inl (InvalidParameter, w3)
           else Inr ((), onLedger (updateConfig_priv factory oracle collector baseToken
                                     protocolFeeRate priceExpireTime) w3))"

definition setFactory :: "env \<Rightarrow> address \<Rightarrow> world \<Rightarrow> unit result" where
  "setFactory e factory w =
     (if contractOwner (ledger w) \<noteq> msgSender e then Inl (Unauthorized, w)
      else if \<not> factory \<noteq> 0 then Inl (InvalidParameter, w)
      else Inr ((), onLedger (\<lambda>s. s\<lparr>mFactory := factory\<rparr>) w))"

definition updateConfig ::
  "env \<Rightarrow> address \<Rightarrow> address \<Rightarrow> address \<Rightarrow> address \<Rightarrow> nat \<Rightarrow> nat \<Rightarrow> world \<Rightarrow> unit result" where
  "updateConfig e factory oracle collector baseToken protocolFeeRate priceExpireTime w =
     (if contractOwner (ledger w) \<noteq> msgSender e then Inl (Unauthorized, w)
      else Inr ((), onLedger (updateConfig_priv factory oracle collector baseToken
                                protocolFeeRate priceExpireTime) w))"

definition saveAsset_priv :: "address \<Rightarrow> nat \<Rightarrow> nat \<Rightarrow> mint_state \<Rightarrow> error + mint_state" where
  "saveAsset_priv assetToken' auctionDiscount' minCollateralRatio' s =
     (if \<not> assetToken' \<noteq> 0 then Inl InvalidParameter
      else if \<not> auctionDiscount' \<le> unit then Inl InvalidParameter
      else if \<not> minCollateralRatio' \<ge> unit then Inl InvalidParameter
      else
        let assetConfig = assetConfigMap s assetToken';
            assetConfig = assetConfig\<lparr>auctionDiscount := auctionDiscount'\<rparr>;
            assetConfig = assetConfig\<lparr>minCollateralRatio := minCollateralRatio'\<rparr>;
            assetConfig = assetConfig\<lparr>token := assetToken'\<rparr>
        in Inr (saveAssetConfig assetToken' assetConfig s))"

definition updateAsset :: "env \<Rightarrow> address \<Rightarrow> nat \<Rightarrow> nat \<Rightarrow> world \<Rightarrow> unit result" where
  "updateAsset e assetToken' auctionDiscount' minCollateralRatio' w =
     (if \<not> onlyFactoryOrOwner e (ledger w) then Inl (Unauthorized, w)
      else case saveAsset_priv assetToken' auctionDiscount' minCollateralRatio' (ledger w) of
             Inl err \<Rightarrow> Inl (err, w)
           | Inr s' \<Rightarrow> Inr ((), w\<lparr>ledger := s'\<rparr>))"

definition registerAsset :: "env \<Rightarrow> address \<Rightarrow> nat \<Rightarrow> nat \<Rightarrow> world \<Rightarrow> unit result" where
  "registerAsset e assetToken' auctionDiscount' minCollateralRatio' w =
     (if \<not> onlyFactoryOrOwner e (ledger w) then Inl (Unauthorized, w)
      else if \<not> token (assetConfigMap (ledger w) assetToken') = 0 then Inl (AlreadyRegistered, w)
      else case saveAsset_priv assetToken' auctionDiscount' minCollateralRatio' (ledger w) of
             Inl err \<Rightarrow> Inl (err, w)
           | Inr s' \<Rightarrow> Inr ((), w\<lparr>ledger := s'\<rparr>))"

definition registerMigration :: "env \<Rightarrow> address \<Rightarrow> nat \<Rightarrow> world \<Rightarrow> unit result" where
  "registerMigration e assetToken' endPrice' w =
     (if \<not> onlyFactoryOrOwner e (ledger w) then Inl (Unauthorized, w)
      else if \<not> assetToken' \<noteq> 0 then Inl (InvalidParameter, w)
      else
        let assetConfig = assetConfigMap (ledger w) assetToken';
            assetConfig = assetConfig\<lparr>endPrice := endPrice'\<rparr>;
            assetConfig = assetConfig\<lparr>minCollateralRatio := unit\<rparr>
        in Inr ((), onLedger (saveAssetConfig assetToken' assetConfig) w))"

definition queryAssetConfig :: "mint_state \<Rightarrow> address \<Rightarrow> nat \<times> nat \<times> nat" where
  "queryAssetConfig s assetToken' =
     (let m = assetConfigMap s assetToken'
      in (auctionDiscount m, minCollateralRatio m, endPrice m))"

subsection \<open>Operations on positions\<close>

definition setOwnerPositionIndex ::
  "address \<Rightarrow> address \<Rightarrow> address \<Rightarrow> nat \<Rightarrow> mint_state \<Rightarrow> mint_state" where
  "setOwnerPositionIndex positionOwner collateralToken' assetToken' v s =
     s\<lparr>ownerPositionIndex :=
          (ownerPositionIndex s)(positionOwner :=
            (ownerPositionIndex s positionOwner)(collateralToken' :=
              (ownerPositionIndex s positionOwner collateralToken')(assetToken' := v)))\<rparr>"

text \<open>\<open>currentpositionIndex += 1\<close> is plain 256-bit addition.\<close>

definition openPosition :: "env \<Rightarrow> address \<Rightarrow> nat \<Rightarrow> address \<Rightarrow> nat \<Rightarrow> world \<Rightarrow> nat result" where
  "openPosition e collateralToken' collateralAmount' assetToken' collateralRatio w =
     (let sender = msgSender e
      in if \<not> collateralToken' \<noteq> 0 then Inl (InvalidParameter, w)
      else if \<not> assetToken' \<noteq> 0 then Inl (InvalidParameter, w)
      else if \<not> collateralAmount' > 0 then Inl (InvalidParameter, w)
      else (case callToken e (TransferFrom collateralToken' sender (thisAddress e) collateralAmount') w of
        Inl failure \<Rightarrow> Inl failure
      | Inr (ok, w1) \<Rightarrow>
          if \<not> ok then Inl (TransferFailed, w1)
          else
            let assetConfig = assetConfigMap (ledger w1) assetToken'
            in if \<not> token assetConfig = assetToken' then Inl (NotRegistered, w1)
            else if \<not> endPrice assetConfig = 0 then Inl (AssetDeprecated, w1)
            else if \<not> minCollateralRatio assetConfig > 0 then Inl (InvalidParameter, w1)
            else if \<not> collateralRatio \<ge> minCollateralRatio assetConfig then Inl (BelowMinimumRatio, w1)
            else (case queryPrice e (ledger w1) collateralToken' assetToken' of
              Inl err \<Rightarrow> Inl (err, w1)
            | Inr relativeCollateralPrice \<Rightarrow>
                (case multiplyDecimal collateralAmount' relativeCollateralPrice of
                   None \<Rightarrow> Inl (MathError, w1)
                 | Some collateralValue \<Rightarrow>
                     (case divideDecimal collateralValue collateralRatio of
                        None \<Rightarrow> Inl (MathError, w1)
                      | Some mintAmount \<Rightarrow>
                          if \<not> mintAmount > 0 then Inl (AmountTooSmall, w1)
                          else
                            let position = \<lparr>idx = currentpositionIndex (ledger w1), owner = sender,
                                            collateralToken = collateralToken',
                                            collateralAmount = collateralAmount',
                                            assetToken = assetToken', assetAmount = mintAmount\<rparr>;
                                w2 = onLedger (savePosition (idx position) position) w1;
                                w3 = onLedger (\<lambda>s. s\<lparr>currentpositionIndex :=
                                                (currentpositionIndex s + 1) mod 2 ^ 256\<rparr>) w2
                            in (case callToken e (MintTo assetToken' sender mintAmount) w3 of
                                 Inl failure \<Rightarrow> Inl failure
                               | Inr (_, w4) \<Rightarrow>
                                   Inr (idx position,
                                        onLedger (setOwnerPositionIndex sender collateralToken'
                                                    assetToken' (idx position)) w4)))))))"

definition deposit :: "env \<Rightarrow> nat \<Rightarrow> address \<Rightarrow> nat \<Rightarrow> world \<Rightarrow> unit result" where
  "deposit e positionIndex collateralToken' collateralAmount' w =
     (let sender = msgSender e
      in if \<not> collateralToken' \<noteq> 0 then Inl (InvalidParameter, w)
      else if \<not> positionIndex > 0 then Inl (InvalidParameter, w)
      else
        let position = idxPositionMap (ledger w) positionIndex
        in if \<not> owner position = sender then Inl (Unauthorized, w)
        else if \<not> (collateralToken position = collateralToken' \<and> collateralAmount' \<noteq> 0)
          then Inl (InvalidParameter, w)
        else
          let assetConfig = assetConfigMap (ledger w) (assetToken position)
          in if \<not> endPrice assetConfig = 0 then Inl (AssetDeprecated, w)
          else (case callToken e (TransferFrom collateralToken' sender (thisAddress e) collateralAmount') w of
            Inl failure \<Rightarrow> Inl failure
          | Inr (ok, w1) \<Rightarrow>
              if \<not> ok then Inl (TransferFailed, w1)
              else (case add_checked (collateralAmount position) collateralAmount' of
                None \<Rightarrow> Inl (MathError, w1)
              | Some newCollateralAmount \<Rightarrow>
                  Inr ((), onLedger (savePosition positionIndex
                                       (position\<lparr>collateralAmount := newCollateralAmount\<rparr>)) w1))))"

definition withdraw :: "env \<Rightarrow> nat \<Rightarrow> address \<Rightarrow> nat \<Rightarrow> world \<Rightarrow> unit result" where
  "withdraw e positionIndex collateralToken' withdrawAmount w =
     (if \<not> collateralToken' \<noteq> 0 then Inl (InvalidParameter, w)
      else
        let position = idxPositionMap (ledger w) positionIndex
        in if \<not> owner position = msgSender e then Inl (Unauthorized, w)
        else if \<not> (collateralToken position = collateralToken' \<and> withdrawAmount \<noteq> 0)
          then Inl (InvalidParameter, w)
        else if \<not> collateralAmount position \<ge> withdrawAmount then Inl (InvalidParameter, w)
        else
          let assetConfig = assetConfigMap (ledger w) (assetToken position)
          in (case queryPrice e (ledger w) (collateralToken position) (assetToken position) of
            Inl err \<Rightarrow> Inl (err, w)
          | Inr relativeCollateralPrice \<Rightarrow>
          (case sub_checked (collateralAmount position) withdrawAmount of
            None \<Rightarrow> Inl (MathError, w)
          | Some newCollateralAmount \<Rightarrow>
          (case multiplyDecimal (assetAmount position) relativeCollateralPrice of
            None \<Rightarrow> Inl (MathError, w)
          | Some assetValueInCollateralAsset \<Rightarrow>
          (case multiplyDecimal assetValueInCollateralAsset (minCollateralRatio assetConfig) of
            None \<Rightarrow> Inl (MathError, w)
          | Some requiredCollateral \<Rightarrow>
              if \<not> requiredCollateral \<le> newCollateralAmount then Inl (BelowMinimumRatio, w)
              else
                let position = position\<lparr>collateralAmount := newCollateralAmount\<rparr>;
                    w1 = (if collateralAmount position = 0 \<and> assetAmount position = 0
                          then onLedger (removePosition positionIndex) w
                          else onLedger (savePosition positionIndex position) w)
                in if \<not> mProtocolFeeRate (ledger w1) > 0 then Inl (FeeRateZero, w1)
                else (case multiplyDecimal withdrawAmount (mProtocolFeeRate (ledger w1)) of
                  None \<Rightarrow> Inl (MathError, w1)
                | Some protocolFee \<Rightarrow>
                (case sub_checked withdrawAmount protocolFee of
                  None \<Rightarrow> Inl (MathError, w1)
                | Some toSender \<Rightarrow>
                (case callToken e (Transfer collateralToken' (msgSender e) toSender) w1 of
                  Inl failure \<Rightarrow> Inl failure
                | Inr (ok, w2) \<Rightarrow>
                    if \<not> ok then Inl (TransferFailed, w2)
                    else (case callToken e (Transfer collateralToken' (mCollector (ledger w2)) protocolFee) w2 of
                      Inl failure \<Rightarrow> Inl failure
                    | Inr (ok', w3) \<Rightarrow>
                        if \<not> ok' then Inl (TransferFailed, w3) else Inr ((), w3))))))))))"

definition mint :: "env \<Rightarrow> nat \<Rightarrow> address \<Rightarrow> nat \<Rightarrow> world \<Rightarrow> unit result" where
  "mint e positionIndex assetToken' assetAmount' w =
     (if \<not> assetToken' \<noteq> 0 then Inl (InvalidParameter, w)
      else
        let position = idxPositionMap (ledger w) positionIndex
        in if \<not> owner position = msgSender e then Inl (Unauthorized, w)
        else if \<not> (assetToken' = assetToken position \<and> assetAmount' > 0) then Inl (InvalidParameter, w)
        else
          let assetConfig = assetConfigMap (ledger w) (assetToken position)
          in if \<not> endPrice assetConfig = 0 then Inl (AssetDeprecated, w)
          else (case queryPrice e (ledger w) (collateralToken position) (assetToken position) of
            Inl err \<Rightarrow> Inl (err, w)
          | Inr relativeCollateralPrice \<Rightarrow>
          (case add_checked assetAmount' (assetAmount position) of
            None \<Rightarrow> Inl (MathError, w)
          | Some newAssetAmount \<Rightarrow>
          (case multiplyDecimal newAssetAmount relativeCollateralPrice of
            None \<Rightarrow> Inl (MathError, w)
          | Some assetValueInCollateralAsset \<Rightarrow>
          (case multiplyDecimal assetValueInCollateralAsset (minCollateralRatio assetConfig) of
            None \<Rightarrow> Inl (MathError, w)
          | Some requiredCollateral \<Rightarrow>
              if \<not> requiredCollateral \<le> collateralAmount position then Inl (BelowMinimumRatio, w)
              else (case add_checked (assetAmount position) assetAmount' of
                None \<Rightarrow> Inl (MathError, w)
              | Some mintedTotal \<Rightarrow>
                  let w1 = onLedger (savePosition positionIndex (position\<lparr>assetAmount := mintedTotal\<rparr>)) w
                  in (case callToken e (MintTo (token assetConfig) (msgSender e) assetAmount') w1 of
                       Inl failure \<Rightarrow> Inl failure
                     | Inr (_, w2) \<Rightarrow> Inr ((), w2))))))))"

definition closePosition :: "env \<Rightarrow> nat \<Rightarrow> world \<Rightarrow> unit result" where
  "closePosition e positionIndex w =
     (let positionOwner = msgSender e;
          position = idxPositionMap (ledger w) positionIndex
      in if \<not> (assetAmount position > 0 \<and> assetToken position \<noteq> 0 \<and> collateralAmount position > 0
                \<and> assetAmount position > 0) then Inl (NothingToClose, w)
      else if \<not> owner position = positionOwner then Inl (Unauthorized, w)
      else (case callToken e (TransferFrom (assetToken position) positionOwner (thisAddress e)
                               (assetAmount position)) w of
        Inl failure \<Rightarrow> Inl failure
      | Inr (ok, w1) \<Rightarrow>
          if \<not> ok then Inl (TransferFailed, w1)
          else (case callToken e (BurnFrom (assetToken position) (thisAddress e) (assetAmount position)) w1 of
            Inl failure \<Rightarrow> Inl failure
          | Inr (_, w2) \<Rightarrow>
              let withdrawAmount = collateralAmount position
              in (case multiplyDecimal withdrawAmount (mProtocolFeeRate (ledger w2)) of
                None \<Rightarrow> Inl (MathError, w2)
              | Some protocolFee \<Rightarrow>
              (case sub_checked withdrawAmount protocolFee of
                None \<Rightarrow> Inl (MathError, w2)
              | Some toSender \<Rightarrow>
              (case callToken e (Transfer (collateralToken position) positionOwner toSender) w2 of
                Inl failure \<Rightarrow> Inl failure
              | Inr (ok', w3) \<Rightarrow>
                  if \<not> ok' then Inl (TransferFailed, w3)
                  else (case callToken e (Transfer (collateralToken position) (mCollector (ledger w3))
                                           protocolFee) w3 of
                    Inl failure \<Rightarrow> Inl failure
                  | Inr (ok'', w4) \<Rightarrow>
                      if \<not> ok'' then Inl (TransferFailed, w4)
                      else
                        let w5 = onLedger (removePosition positionIndex) w4
                        in Inr ((), onLedger (setOwnerPositionIndex positionOwner
                                     (collateralToken position) (assetToken position) 0) w5))))))))"

subsection \<open>Liquidation\<close>

text \<open>
  The result of the transfer of the residual collateral to the owner is not inspected
  by the source; only a revert of the token stops the auction there.
\<close>

definition auction :: "env \<Rightarrow> nat \<Rightarrow> nat \<Rightarrow> world \<Rightarrow> unit result" where
  "auction e positionIndex liquidateAssetAmount w =
     (let sender = msgSender e;
          position = idxPositionMap (ledger w) positionIndex;
          assetConfig = assetConfigMap (ledger w) (assetToken position);
          assetPrice = fst (oracleQueryPrice e (mOracle (ledger w)) (assetToken position))
      in (case isValidPostion (ledger w) position assetPrice of
        Inl err \<Rightarrow> Inl (err, w)
      | Inr valid \<Rightarrow>
          if \<not> \<not> valid then Inl (PositionSafe, w)
          else (case sub_checked unit (auctionDiscount assetConfig) of
            None \<Rightarrow> Inl (MathError, w)
          | Some keptFraction \<Rightarrow>
          (case divideDecimal assetPrice keptFraction of
            None \<Rightarrow> Inl (MathError, w)
          | Some discountedPrice \<Rightarrow>
          (case divideDecimal (collateralAmount position) discountedPrice of
            None \<Rightarrow> Inl (MathError, w)
          | Some maxLiquidateAssetAmount \<Rightarrow>
              let liquidateAssetAmount =
                    (if liquidateAssetAmount > maxLiquidateAssetAmount
                     then maxLiquidateAssetAmount else liquidateAssetAmount);
                  liquidateAssetAmount =
                    (if liquidateAssetAmount > assetAmount position
                     then assetAmount position else liquidateAssetAmount)
              in (case callToken e (TransferFrom (assetToken position) sender (thisAddress e)
                                      liquidateAssetAmount) w of
                Inl failure \<Rightarrow> Inl failure
              | Inr (ok, w1) \<Rightarrow>
                  if \<not> ok then Inl (TransferFailed, w1)
                  else (case multiplyDecimal liquidateAssetAmount discountedPrice of
                    None \<Rightarrow> Inl (MathError, w1)
                  | Some returnCollateralAmount \<Rightarrow>
                  (case sub_checked (collateralAmount position) returnCollateralAmount of
                    None \<Rightarrow> Inl (MathError, w1)
                  | Some newCollateralAmount \<Rightarrow>
                  (case sub_checked (assetAmount position) liquidateAssetAmount of
                    None \<Rightarrow> Inl (MathError, w1)
                  | Some newAssetAmount \<Rightarrow>
                      let position = position\<lparr>collateralAmount := newCollateralAmount\<rparr>;
                          position = position\<lparr>assetAmount := newAssetAmount\<rparr>
                      in (case (if collateralAmount position = 0
                                then Inr (onLedger (removePosition positionIndex) w1)
                                else if assetAmount position = 0
                                then (case callToken e (Transfer (collateralToken position) (owner position)
                                                          (collateralAmount position)) w1 of
                                        Inl failure \<Rightarrow> Inl failure
                                      | Inr (_, w2) \<Rightarrow> Inr (onLedger (removePosition positionIndex) w2))
                                else Inr (onLedger (\<lambda>s. s\<lparr>idxPositionMap :=
                                            (idxPositionMap s)(positionIndex := position)\<rparr>) w1)) of
                        Inl failure \<Rightarrow> Inl failure
                      | Inr w3 \<Rightarrow>
                      (case multiplyDecimal returnCollateralAmount (mProtocolFeeRate (ledger w3)) of
                        None \<Rightarrow> Inl (MathError, w3)
                      | Some protocolFee \<Rightarrow>
                      (case sub_checked returnCollateralAmount protocolFee of
                        None \<Rightarrow> Inl (MathError, w3)
                      | Some returnCollateralAmount \<Rightarrow>
                      (case callToken e (Transfer (collateralToken position) (mCollector (ledger w3))
                                           protocolFee) w3 of
                        Inl failure \<Rightarrow> Inl failure
                      | Inr (ok', w4) \<Rightarrow>
                          if \<not> ok' then Inl (TransferFailed, w4)
                          else (case callToken e (Transfer (collateralToken position) sender
                                                    returnCollateralAmount) w4 of
                            Inl failure \<Rightarrow> Inl failure
                          | Inr (ok'', w5) \<Rightarrow>
                              if \<not> ok'' then Inl (TransferFailed, w5)
                              else Inr ((), w5)))))))))))))))"

subsection \<open>Queries\<close>

definition queryPosition :: "mint_state \<Rightarrow> nat \<Rightarrow> address \<times> address \<times> nat \<times> address \<times> nat" where
  "queryPosition s positionIndex =
     (let m = idxPositionMap s positionIndex
      in (owner m, collateralToken m, collateralAmount m, assetToken m, assetAmount m))"

definition queryPositionIndex :: "mint_state \<Rightarrow> address \<Rightarrow> address \<Rightarrow> address \<Rightarrow> nat" where
  "queryPositionIndex s postionOwner collateralToken' assetToken' =
     ownerPositionIndex s postionOwner collateralToken' assetToken'"

text \<open>
  The six arrays a query returns: indices, owners, collateral tokens, collateral amounts,
  asset tokens, asset amounts. Writing a memory array outside its length reverts.
\<close>

type_synonym position_arrays =
  "nat list \<times> address list \<times> address list \<times> nat list \<times> address list \<times> nat list"

definition newArrays :: "nat \<Rightarrow> position_arrays" where
  "newArrays n = (replicate n 0, replicate n 0, replicate n 0, replicate n 0,
                  replicate n 0, replicate n 0)"

definition writeAt :: "nat list \<Rightarrow> nat \<Rightarrow> nat \<Rightarrow> nat list option" where
  "writeAt xs i v = (if i < length xs then Some (xs[i := v]) else None)"

definition writeRow :: "position_arrays \<Rightarrow> nat \<Rightarrow> Position \<Rightarrow> position_arrays option" where
  "writeRow arrs index position =
     (case arrs of (idxes, owners, collaterals, collateralAmounts, assets, assetAmounts) \<Rightarrow>
       (case writeAt idxes index (idx position) of None \<Rightarrow> None | Some idxes' \<Rightarrow>
       (case writeAt owners index (owner position) of None \<Rightarrow> None | Some owners' \<Rightarrow>
       (case writeAt collaterals index (collateralToken position) of None \<Rightarrow> None | Some collaterals' \<Rightarrow>
       (case writeAt collateralAmounts index (collateralAmount position) of None \<Rightarrow> None
        | Some collateralAmounts' \<Rightarrow>
       (case writeAt assets index (assetToken position) of None \<Rightarrow> None | Some assets' \<Rightarrow>
       (case writeAt assetAmounts index (assetAmount position) of None \<Rightarrow> None
        | Some assetAmounts' \<Rightarrow>
            Some (idxes', owners', collaterals', collateralAmounts', assets', assetAmounts'))))))))"

function invalidLoop ::
  "mint_state \<Rightarrow> address \<Rightarrow> nat \<Rightarrow> nat \<Rightarrow> nat \<Rightarrow> position_arrays \<Rightarrow> error + position_arrays" where
  "invalidLoop s asset assetPrice i index arrs =
     (if i < length (postionIdxArray s) then
        let position = idxPositionMap s (postionIdxArray s ! i)
        in if assetToken position = asset then
             (case isValidPostion s position assetPrice of
                Inl err \<Rightarrow> Inl err
              | Inr valid \<Rightarrow>
                  if \<not> valid then
                    (case writeRow arrs index position of
                       None \<Rightarrow> Inl IndexOutOfBounds
                     | Some arrs' \<Rightarrow> invalidLoop s asset assetPrice (Suc i) (index + 1) arrs')
                  else invalidLoop s asset assetPrice (Suc i) index arrs)
           else invalidLoop s asset assetPrice (Suc i) index arrs
      else Inr arrs)"
  by pat_completeness auto
termination
  by (relation "measure (\<lambda>(s, asset, assetPrice, i, index, arrs). length (postionIdxArray s) - i)") auto

declare invalidLoop.simps [simp del]

definition queryInvalidPositioins :: "env \<Rightarrow> mint_state \<Rightarrow> address \<Rightarrow> error + position_arrays" where
  "queryInvalidPositioins e s asset =
     (let arrs = newArrays 0;
          assetPrice = fst (oracleQueryPrice e (mOracle s) asset)
      in if assetPrice > 0 then invalidLoop s asset assetPrice 0 0 arrs else Inr arrs)"

text \<open>The loop shared by \<open>queryAllPositions\<close> and \<open>queryPositions\<close>; \<open>matches\<close> is the filter.\<close>

function scanLoop ::
  "mint_state \<Rightarrow> (Position \<Rightarrow> bool) \<Rightarrow> nat \<Rightarrow> nat \<Rightarrow> nat \<Rightarrow> position_arrays \<Rightarrow> error + position_arrays" where
  "scanLoop s matches len i index arrs =
     (if i < len then
        let position = idxPositionMap s (postionIdxArray s ! i)
        in if matches position then
             (case writeRow arrs index position of
                None \<Rightarrow> Inl IndexOutOfBounds
              | Some arrs' \<Rightarrow> scanLoop s matches len (Suc i) (index + 1) arrs')
           else scanLoop s matches len (Suc i) index arrs
      else Inr arrs)"
  by pat_completeness auto
termination
  by (relation "measure (\<lambda>(s, matches, len, i, index, arrs). len - i)") auto

declare scanLoop.simps [simp del]

definition queryAllPositions :: "mint_state \<Rightarrow> address \<Rightarrow> error + position_arrays" where
  "queryAllPositions s owner' =
     (if \<not> owner' \<noteq> 0 then Inl InvalidParameter
      else
        let len = length (postionIdxArray s)
        in scanLoop s (\<lambda>position. owner position = owner') len 0 0 (newArrays len))"

definition queryPositions :: "mint_state \<Rightarrow> address \<Rightarrow> address \<Rightarrow> error + position_arrays" where
  "queryPositions s owner' assetToken' =
     (let len = length (postionIdxArray s)
      in scanLoop s (\<lambda>position. (owner position = owner' \<or> owner' = 0)
                                 \<and> (assetToken position = assetToken' \<or> assetToken' = 0))
           len 0 0 (newArrays len))"

subsection \<open>The solvency predicate as the specification words it\<close>

text \<open>
  The specification's shared solvency predicate, written from its words and compared
  below with \<open>isValidPostion\<close>: the relative price is the price of the asset divided by
  the price of the collateral, stale or zero legs are errors, and a position is valid iff
  \<open>collateralAmount \<ge> assetAmount * relativePrice * minCollateralRatio\<close>, every product
  and quotient truncated to the fixed-point unit.
\<close>

definition spec_relativePrice :: "env \<Rightarrow> mint_state \<Rightarrow> address \<Rightarrow> address \<Rightarrow> error + nat" where
  "spec_relativePrice e s assetToken' collateralToken' =
     (let (assetPrice, assetUpdated) = readPrice e s assetToken';
          (collateralPrice, collateralUpdated) = readPrice e s collateralToken'
      in if assetUpdated + mPriceExpireTime s < blockTimestamp e
            \<or> collateralUpdated + mPriceExpireTime s < blockTimestamp e then Inl StalePrice
         else if assetPrice = 0 \<or> collateralPrice = 0 then Inl ZeroPrice
         else Inr (assetPrice * unit div collateralPrice))"

definition spec_validPosition :: "env \<Rightarrow> mint_state \<Rightarrow> Position \<Rightarrow> error + bool" where
  "spec_validPosition e s position =
     (case spec_relativePrice e s (assetToken position) (collateralToken position) of
        Inl err \<Rightarrow> Inl err
      | Inr relativePrice \<Rightarrow>
          Inr (collateralAmount position
                 \<ge> (assetAmount position * relativePrice div unit)
                      * minCollateralRatio (assetConfigMap s (assetToken position)) div unit))"

subsection \<open>A worked scenario\<close>

text \<open>
  The scenario of the specification: the administrator \<open>10\<close> initializes the contract
  \<open>100\<close> (factory \<open>50\<close>, oracle \<open>60\<close>, collector \<open>70\<close>, base token \<open>1\<close>, protocol fee
  \<open>0.015\<close>, prices expire after \<open>3600\<close> seconds) and registers the asset \<open>2\<close> with auction
  discount \<open>0.2\<close> and minimum collateral ratio \<open>1.5\<close>; the user \<open>11\<close> opens a position
  with \<open>1500\<close> of the base token at ratio \<open>1.5\<close> while the asset costs \<open>10\<close>, and is
  issued \<open>100\<close> of the asset. In \<open>exEnv\<close> every token call succeeds.
\<close>

definition exEnv :: "address \<Rightarrow> nat \<Rightarrow> env" where
  "exEnv sender assetPrice =
     \<lparr>msgSender = sender, thisAddress = 100, blockTimestamp = 10000,
      oracleQueryPrice = (\<lambda>orc tok. if orc = 60 \<and> tok = 2 then (assetPrice, 9990) else (0, 0)),
      tokenCall = (\<lambda>_ _. Returned True)\<rparr>"

definition freshWorld :: world where
  "freshWorld =
     \<lparr>ledger =
        \<lparr>contractOwner = 0, initialized = False, mFactory = 0, mOracle = 0, mCollector = 0,
         mBaseToken = 0, mProtocolFeeRate = 0, mPriceExpireTime = 0,
         assetConfigMap = (\<lambda>_. zeroAssetConfig), assetTokenArray = [],
         idxPositionMap = (\<lambda>_. zeroPosition), postionIdxArray = [],
         currentpositionIndex = 0, ownerPositionIndex = (\<lambda>_ _ _. 0)\<rparr>,
      calls = []\<rparr>"

definition exConfigured :: world where
  "exConfigured =
     \<lparr>ledger =
        \<lparr>contractOwner = 10, initialized = True, mFactory = 50, mOracle = 60, mCollector = 70,
         mBaseToken = 1, mProtocolFeeRate = 15000000000000000, mPriceExpireTime = 3600,
         assetConfigMap = (\<lambda>_. zeroAssetConfig)
           (2 := \<lparr>token = 2, auctionDiscount = 200000000000000000,
                  minCollateralRatio = 1500000000000000000, endPrice = 0\<rparr>),
         assetTokenArray = [2],
         idxPositionMap = (\<lambda>_. zeroPosition), postionIdxArray = [],
         currentpositionIndex = 1, ownerPositionIndex = (\<lambda>_ _ _. 0)\<rparr>,
      calls = []\<rparr>"

text \<open>The configured contract holding the single position \<open>p\<close> at index \<open>1\<close>.\<close>

definition exWithPosition :: "Position \<Rightarrow> extcall list \<Rightarrow> world" where
  "exWithPosition p cs =
     \<lparr>ledger = (ledger exConfigured)
        \<lparr>idxPositionMap := (\<lambda>_. zeroPosition)(1 := p),
         postionIdxArray := [1],
         currentpositionIndex := 2,
         ownerPositionIndex :=
           (\<lambda>_ _ _. 0)(owner p := (\<lambda>_ _. 0)(collateralToken p := (\<lambda>_. 0)(assetToken p := 1)))\<rparr>,
      calls = cs\<rparr>"

definition exOpened :: world where
  "exOpened =
     exWithPosition
       \<lparr>idx = 1, owner = 11, collateralToken = 1, collateralAmount = 1500,
        assetToken = 2, assetAmount = 100\<rparr>
       [TransferFrom 1 11 100 1500, MintTo 2 11 100]"

text \<open>The scenario after the administrator has migrated the asset at end price \<open>12\<close>.\<close>

definition exMigrated :: world where
  "exMigrated =
     onLedger (\<lambda>s. s\<lparr>assetConfigMap := (assetConfigMap s)
        (2 := \<lparr>token = 2, auctionDiscount = 200000000000000000,
               minCollateralRatio = 1000000000000000000, endPrice = 12000000000000000000\<rparr>)\<rparr>)
       exOpened"

text \<open>
  Two more families of environments: one in which the oracle also quotes a second
  collateral token \<open>3\<close>, the asset costing \<open>1\<close>; and one in which the quote of the
  asset was last updated at time \<open>0\<close>, long before the expiry window. In
  \<open>exForeignCollateral\<close> the user \<open>11\<close> has opened the position with \<open>1500\<close> of
  token \<open>3\<close>, worth \<open>0.1\<close> each at the time, against \<open>100\<close> of the asset.
\<close>

definition exEnvCollateralPrice :: "address \<Rightarrow> nat \<Rightarrow> env" where
  "exEnvCollateralPrice sender collateralPrice =
     (exEnv sender unit)\<lparr>oracleQueryPrice :=
        (\<lambda>orc tok. if tok = 2 then (unit, 9990)
                    else if tok = 3 then (collateralPrice, 9990) else (0, 0))\<rparr>"

definition exEnvStale :: "address \<Rightarrow> nat \<Rightarrow> env" where
  "exEnvStale sender assetPrice =
     (exEnv sender assetPrice)\<lparr>oracleQueryPrice :=
        (\<lambda>orc tok. if tok = 2 then (assetPrice, 0) else (0, 0))\<rparr>"

definition exForeignCollateral :: world where
  "exForeignCollateral =
     exWithPosition
       \<lparr>idx = 1, owner = 11, collateralToken = 3, collateralAmount = 1500,
        assetToken = 2, assetAmount = 100\<rparr>
       [TransferFrom 3 11 100 1500, MintTo 2 11 100]"

section \<open>Properties\<close>

subsection \<open>Auxiliary facts\<close>

lemma onLedger_simps [simp]:
  "ledger (onLedger f w) = f (ledger w)"
  "calls (onLedger f w) = calls w"
  by (simp_all add: onLedger_def)

lemma removePosition_fields [simp]:
  "mProtocolFeeRate (removePosition i s) = mProtocolFeeRate s"
  "mCollector (removePosition i s) = mCollector s"
  "ownerPositionIndex (removePosition i s) = ownerPositionIndex s"
  "assetConfigMap (removePosition i s) = assetConfigMap s"
  "currentpositionIndex (removePosition i s) = currentpositionIndex s"
  "idxPositionMap (removePosition i s) = (idxPositionMap s)(i := zeroPosition)"
  by (simp_all add: removePosition_def Let_def)

lemma savePosition_fields [simp]:
  "mProtocolFeeRate (savePosition i p s) = mProtocolFeeRate s"
  "mCollector (savePosition i p s) = mCollector s"
  "ownerPositionIndex (savePosition i p s) = ownerPositionIndex s"
  "assetConfigMap (savePosition i p s) = assetConfigMap s"
  "currentpositionIndex (savePosition i p s) = currentpositionIndex s"
  "idxPositionMap (savePosition i p s) = (idxPositionMap s)(i := p)"
  by (simp_all add: savePosition_def)

lemma callToken_Inr:
  "callToken e c w = Inr (b, w') \<longleftrightarrow>
     tokenCall e (calls w) c = Returned b \<and> w' = w\<lparr>calls := calls w @ [c]\<rparr>"
  by (auto simp: callToken_def Let_def split: callres.splits)

lemma callToken_Inl:
  "callToken e c w = Inl (err, wx) \<longleftrightarrow>
     tokenCall e (calls w) c = Reverted \<and> err = ExternalRevert \<and> wx = w\<lparr>calls := calls w @ [c]\<rparr>"
  by (auto simp: callToken_def Let_def split: callres.splits)

text \<open>The scenario is reached from the empty storage by the calls it describes.\<close>

lemmas scenario_eval =
  transact_def callToken_def Let_def queryPrice_def readPrice_def isValidPostion_def
  multiplyDecimal_def divideDecimal_def mul_checked_def div_checked_def sub_checked_def
  add_checked_def MAX_UINT_def unit_def onLedger_def savePosition_def setOwnerPositionIndex_def
  exEnv_def exConfigured_def exWithPosition_def exOpened_def freshWorld_def
  zeroAssetConfig_def zeroPosition_def

lemma exConfigured_reached:
  "snd (transact (registerAsset (exEnv 10 (10 * unit)) 2 (unit div 5) (3 * unit div 2))
     (snd (transact (initialize (exEnv 10 (10 * unit)) 50 60 70 1 (15 * unit div 1000) 3600)
        freshWorld))) = exConfigured"
  by (simp add: scenario_eval initialize_def registerAsset_def updateConfig_priv_def
        onlyFactoryOrOwner_def saveAsset_priv_def saveAssetConfig_def)

lemma exOpened_reached:
  "transact (openPosition (exEnv 11 (10 * unit)) 1 1500 2 (3 * unit div 2)) exConfigured
     = (Inr 1, exOpened)"
  by (simp add: scenario_eval openPosition_def fun_eq_iff)

subsection \<open>Withdrawals while the protocol fee rate is zero\<close>

text \<open>
  C10. The protocol fee rate may be zero: \<open>initialize\<close> accepts it (it only requires
  the rate to be at most one unit). While the stored rate is zero, every call of
  \<open>withdraw\<close> fails, whatever the position, the caller and the amount, so the call
  leaves the world as it was and no collateral leaves the contract through \<open>withdraw\<close>.
\<close>

theorem withdraw_fails_while_fee_rate_zero:
  "(\<not> initialized (ledger w0) \<longrightarrow>
      (\<exists>w1. initialize e0 factory oracle collector baseToken 0 priceExpireTime w0 = Inr ((), w1)
            \<and> mProtocolFeeRate (ledger w1) = 0))
   \<and> (mProtocolFeeRate (ledger w) = 0 \<longrightarrow>
        (\<exists>err wx. withdraw e positionIndex collateralToken' withdrawAmount w = Inl (err, wx))
        \<and> snd (transact (withdraw e positionIndex collateralToken' withdrawAmount) w) = w)"
proof (intro conjI impI)
  assume "\<not> initialized (ledger w0)"
  then show "\<exists>w1. initialize e0 factory oracle collector baseToken 0 priceExpireTime w0 = Inr ((), w1)
            \<and> mProtocolFeeRate (ledger w1) = 0"
    by (simp add: initialize_def Let_def updateConfig_priv_def)
next
  assume zero: "mProtocolFeeRate (ledger w) = 0"
  then show fails: "\<exists>err wx. withdraw e positionIndex collateralToken' withdrawAmount w = Inl (err, wx)"
    by (auto simp: withdraw_def Let_def split: sum.splits option.splits prod.splits if_splits)
  then show "snd (transact (withdraw e positionIndex collateralToken' withdrawAmount) w) = w"
    by (auto simp: transact_def)
qed

theorem withdraw_fails_while_fee_rate_zero_witness:
  "\<not> initialized (ledger freshWorld)
   \<and> mProtocolFeeRate (ledger (onLedger (\<lambda>s. s\<lparr>mProtocolFeeRate := 0\<rparr>) exOpened)) = 0
   \<and> (\<exists>w1. initialize (exEnv 10 (10 * unit)) 50 60 70 1 0 3600 freshWorld = Inr ((), w1)
            \<and> mProtocolFeeRate (ledger w1) = 0)
   \<and> (\<exists>err wx. withdraw (exEnv 11 (5 * unit)) 1 1 500
                  (onLedger (\<lambda>s. s\<lparr>mProtocolFeeRate := 0\<rparr>) exOpened) = Inl (err, wx))
   \<and> snd (transact (withdraw (exEnv 11 (5 * unit)) 1 1 500)
            (onLedger (\<lambda>s. s\<lparr>mProtocolFeeRate := 0\<rparr>) exOpened))
       = onLedger (\<lambda>s. s\<lparr>mProtocolFeeRate := 0\<rparr>) exOpened"
proof -
  have a: "\<not> initialized (ledger freshWorld)"
    by (simp add: freshWorld_def)
  have b: "mProtocolFeeRate (ledger (onLedger (\<lambda>s. s\<lparr>mProtocolFeeRate := 0\<rparr>) exOpened)) = 0"
    by simp
  show ?thesis
    using a b
      withdraw_fails_while_fee_rate_zero
        [of freshWorld "exEnv 10 (10 * unit)" 50 60 70 1 3600
            "onLedger (\<lambda>s. s\<lparr>mProtocolFeeRate := 0\<rparr>) exOpened" "exEnv 11 (5 * unit)" 1 1 500]
    by blast
qed

subsection \<open>Inversion of successful calls\<close>

text \<open>
  What a checked operation returned when it did return, and how a chain of checks that
  ended in success is read backwards: each check passed.
\<close>

lemma multiplyDecimal_Some:
  "multiplyDecimal x y = Some z \<longleftrightarrow> x * y \<le> MAX_UINT \<and> z = x * y div unit"
  by (auto simp: multiplyDecimal_def mul_checked_def)

lemma divideDecimal_Some:
  "divideDecimal x y = Some z \<longleftrightarrow> x * unit \<le> MAX_UINT \<and> y \<noteq> 0 \<and> z = x * unit div y"
  by (auto simp: divideDecimal_def mul_checked_def div_checked_def)

lemma sub_checked_Some: "sub_checked a b = Some c \<longleftrightarrow> b \<le> a \<and> c = a - b"
  by (auto simp: sub_checked_def)

lemma add_checked_Some: "add_checked a b = Some c \<longleftrightarrow> a + b \<le> MAX_UINT \<and> c = a + b"
  by (auto simp: add_checked_def)

lemma if_gt_min: "(if a > b then b else a) = min a (b::nat)"
  by (simp add: min_def)


lemma multiplyDecimal_None: "multiplyDecimal x y = None \<longleftrightarrow> x * y > MAX_UINT"
  by (auto simp: multiplyDecimal_def mul_checked_def)

lemma divideDecimal_None: "divideDecimal x y = None \<longleftrightarrow> x * unit > MAX_UINT \<or> y = 0"
  by (auto simp: divideDecimal_def mul_checked_def div_checked_def)

lemma sub_checked_None: "sub_checked a b = None \<longleftrightarrow> a < b"
  by (auto simp: sub_checked_def)

lemma add_checked_None: "add_checked a b = None \<longleftrightarrow> a + b > MAX_UINT"
  by (auto simp: add_checked_def)

lemmas checked_simps = multiplyDecimal_Some divideDecimal_Some sub_checked_Some add_checked_Some
  multiplyDecimal_None divideDecimal_None sub_checked_None add_checked_None

lemma isValidPostion_Inr:
  "isValidPostion s p price = Inr v \<longleftrightarrow>
     assetAmount p * price \<le> MAX_UINT \<and> collateralAmount p * unit \<le> MAX_UINT
     \<and> assetAmount p * price div unit \<noteq> 0
     \<and> v = (minCollateralRatio (assetConfigMap s (assetToken p))
              \<le> collateralAmount p * unit div (assetAmount p * price div unit))"
  by (auto simp: isValidPostion_def checked_simps split: option.splits)


lemma case_sum_Inl_eq_Inr:
  "(case m of Inl a \<Rightarrow> Inl (g a) | Inr x \<Rightarrow> k x) = Inr r \<longleftrightarrow> (\<exists>x. m = Inr x \<and> k x = Inr r)"
  by (cases m) auto

lemma case_option_Inl_eq_Inr:
  "(case m of None \<Rightarrow> Inl a | Some x \<Rightarrow> k x) = Inr r \<longleftrightarrow> (\<exists>x. m = Some x \<and> k x = Inr r)"
  by (cases m) auto

lemma if_Inl_eq_Inr:
  "(if c then Inl a else k) = Inr r \<longleftrightarrow> (\<not> c \<and> k = Inr r)"
  by auto

lemmas success_simps = case_sum_Inl_eq_Inr case_option_Inl_eq_Inr if_Inl_eq_Inr






lemma position_update_simps:
  "idx (p\<lparr>collateralAmount := x, assetAmount := y\<rparr>) = idx p"
  "owner (p\<lparr>collateralAmount := x, assetAmount := y\<rparr>) = owner p"
  "collateralToken (p\<lparr>collateralAmount := x, assetAmount := y\<rparr>) = collateralToken p"
  "assetToken (p\<lparr>collateralAmount := x, assetAmount := y\<rparr>) = assetToken p"
  "collateralAmount (p\<lparr>collateralAmount := x, assetAmount := y\<rparr>) = x"
  "assetAmount (p\<lparr>collateralAmount := x, assetAmount := y\<rparr>) = y"
  by simp_all

lemma world_update_simps:
  "calls (w\<lparr>calls := cs\<rparr>) = cs"
  "ledger (w\<lparr>calls := cs\<rparr>) = ledger w"
  by simp_all

lemma auction_success_unfold:
  assumes A: "auction e positionIndex requested w = Inr ((), w')"
    and p: "idxPositionMap (ledger w) positionIndex = p"
    and price: "fst (oracleQueryPrice e (mOracle (ledger w)) (assetToken p)) = price"
    and cfg: "assetConfigMap (ledger w) (assetToken p) = cfg"
  shows "\<exists>discountedPrice maxLiquidate liquidated returned w3 fee.
      isValidPostion (ledger w) p price = Inr False
    \<and> auctionDiscount cfg \<le> unit
    \<and> divideDecimal price (unit - auctionDiscount cfg) = Some discountedPrice
    \<and> divideDecimal (collateralAmount p) discountedPrice = Some maxLiquidate
    \<and> liquidated = min (min requested maxLiquidate) (assetAmount p)
    \<and> tokenCall e (calls w) (TransferFrom (assetToken p) (msgSender e) (thisAddress e) liquidated)
         = Returned True
    \<and> multiplyDecimal liquidated discountedPrice = Some returned
    \<and> returned \<le> collateralAmount p
    \<and> liquidated \<le> assetAmount p
    \<and> (if collateralAmount p - returned = 0
        then Inr (onLedger (removePosition positionIndex)
               (w\<lparr>calls := calls w @ [TransferFrom (assetToken p) (msgSender e) (thisAddress e) liquidated]\<rparr>))
        else if assetAmount p - liquidated = 0
        then (case callToken e (Transfer (collateralToken p) (owner p) (collateralAmount p - returned))
                     (w\<lparr>calls := calls w @ [TransferFrom (assetToken p) (msgSender e) (thisAddress e) liquidated]\<rparr>) of
                Inl x \<Rightarrow> Inl x
              | Inr (xa, w2) \<Rightarrow> Inr (onLedger (removePosition positionIndex) w2))
        else Inr (onLedger (\<lambda>s. s\<lparr>idxPositionMap := (idxPositionMap s)
                      (positionIndex := p\<lparr>collateralAmount := collateralAmount p - returned,
                                            assetAmount := assetAmount p - liquidated\<rparr>)\<rparr>)
               (w\<lparr>calls := calls w @ [TransferFrom (assetToken p) (msgSender e) (thisAddress e) liquidated]\<rparr>)))
       = Inr w3
    \<and> multiplyDecimal returned (mProtocolFeeRate (ledger w3)) = Some fee
    \<and> fee \<le> returned
    \<and> tokenCall e (calls w3) (Transfer (collateralToken p) (mCollector (ledger w3)) fee) = Returned True
    \<and> tokenCall e (calls w3 @ [Transfer (collateralToken p) (mCollector (ledger w3)) fee])
         (Transfer (collateralToken p) (msgSender e) (returned - fee)) = Returned True
    \<and> w' = w3\<lparr>calls := calls w3 @ [Transfer (collateralToken p) (mCollector (ledger w3)) fee]\<rparr>
           \<lparr>calls := calls (w3\<lparr>calls := calls w3 @ [Transfer (collateralToken p) (mCollector (ledger w3)) fee]\<rparr>) @ [Transfer (collateralToken p) (msgSender e) (returned - fee)]\<rparr>"
  using A unfolding auction_def Let_def p price cfg
  apply (simp only: success_simps if_gt_min split_paired_Ex prod.case simp_thms sub_checked_Some
           callToken_Inr sum.inject prod.inject)
  apply (elim exE conjE)
  apply hypsubst
  apply (simp only: position_update_simps world_update_simps)
  apply (intro exI conjI)
  apply (assumption | rule refl TrueI)+
  done



lemma auction_success_settled:
  assumes A: "auction e positionIndex requested w = Inr ((), w')"
    and p: "idxPositionMap (ledger w) positionIndex = p"
    and price: "fst (oracleQueryPrice e (mOracle (ledger w)) (assetToken p)) = price"
    and cfg: "assetConfigMap (ledger w) (assetToken p) = cfg"
  shows "\<exists>discountedPrice maxLiquidate liquidated returned fee residual before.
      isValidPostion (ledger w) p price = Inr False
    \<and> auctionDiscount cfg \<le> unit
    \<and> divideDecimal price (unit - auctionDiscount cfg) = Some discountedPrice
    \<and> divideDecimal (collateralAmount p) discountedPrice = Some maxLiquidate
    \<and> liquidated = min requested (min maxLiquidate (assetAmount p))
    \<and> multiplyDecimal liquidated discountedPrice = Some returned
    \<and> returned \<le> collateralAmount p
    \<and> multiplyDecimal returned (mProtocolFeeRate (ledger w)) = Some fee
    \<and> fee \<le> returned
    \<and> residual = (if collateralAmount p - returned \<noteq> 0 \<and> assetAmount p - liquidated = 0
                   then [Transfer (collateralToken p) (owner p) (collateralAmount p - returned)]
                   else [])
    \<and> before = calls w @ [TransferFrom (assetToken p) (msgSender e) (thisAddress e) liquidated] @ residual
    \<and> tokenCall e (calls w) (TransferFrom (assetToken p) (msgSender e) (thisAddress e) liquidated)
         = Returned True
    \<and> tokenCall e before (Transfer (collateralToken p) (mCollector (ledger w)) fee) = Returned True
    \<and> tokenCall e (before @ [Transfer (collateralToken p) (mCollector (ledger w)) fee])
         (Transfer (collateralToken p) (msgSender e) (returned - fee)) = Returned True
    \<and> calls w' = before @ [Transfer (collateralToken p) (mCollector (ledger w)) fee,
                            Transfer (collateralToken p) (msgSender e) (returned - fee)]
    \<and> idxPositionMap (ledger w') positionIndex =
         (if collateralAmount p - returned = 0 \<or> assetAmount p - liquidated = 0 then zeroPosition
          else p\<lparr>collateralAmount := collateralAmount p - returned,
                 assetAmount := assetAmount p - liquidated\<rparr>)
    \<and> ownerPositionIndex (ledger w') = ownerPositionIndex (ledger w)"
proof -
  from auction_success_unfold [OF A p price cfg]
  obtain discountedPrice maxLiquidate liquidated returned w3 fee where
        valid: "isValidPostion (ledger w) p price = Inr False"
    and discount: "auctionDiscount cfg \<le> unit"
    and dp: "divideDecimal price (unit - auctionDiscount cfg) = Some discountedPrice"
    and ml: "divideDecimal (collateralAmount p) discountedPrice = Some maxLiquidate"
    and liq: "liquidated = min (min requested maxLiquidate) (assetAmount p)"
    and pull: "tokenCall e (calls w) (TransferFrom (assetToken p) (msgSender e) (thisAddress e) liquidated)
                 = Returned True"
    and ret: "multiplyDecimal liquidated discountedPrice = Some returned"
    and ret_le: "returned \<le> collateralAmount p"
    and settle: "(if collateralAmount p - returned = 0
        then Inr (onLedger (removePosition positionIndex)
               (w\<lparr>calls := calls w @ [TransferFrom (assetToken p) (msgSender e) (thisAddress e) liquidated]\<rparr>))
        else if assetAmount p - liquidated = 0
        then (case callToken e (Transfer (collateralToken p) (owner p) (collateralAmount p - returned))
                     (w\<lparr>calls := calls w @ [TransferFrom (assetToken p) (msgSender e) (thisAddress e) liquidated]\<rparr>) of
                Inl x \<Rightarrow> Inl x
              | Inr (xa, w2) \<Rightarrow> Inr (onLedger (removePosition positionIndex) w2))
        else Inr (onLedger (\<lambda>s. s\<lparr>idxPositionMap := (idxPositionMap s)
                      (positionIndex := p\<lparr>collateralAmount := collateralAmount p - returned,
                                            assetAmount := assetAmount p - liquidated\<rparr>)\<rparr>)
               (w\<lparr>calls := calls w @ [TransferFrom (assetToken p) (msgSender e) (thisAddress e) liquidated]\<rparr>)))
       = Inr w3"
    and fee: "multiplyDecimal returned (mProtocolFeeRate (ledger w3)) = Some fee"
    and fee_le: "fee \<le> returned"
    and pay1: "tokenCall e (calls w3) (Transfer (collateralToken p) (mCollector (ledger w3)) fee) = Returned True"
    and pay2: "tokenCall e (calls w3 @ [Transfer (collateralToken p) (mCollector (ledger w3)) fee])
         (Transfer (collateralToken p) (msgSender e) (returned - fee)) = Returned True"
    and w': "w' = w3\<lparr>calls := calls w3 @ [Transfer (collateralToken p) (mCollector (ledger w3)) fee]\<rparr>
           \<lparr>calls := calls (w3\<lparr>calls := calls w3 @ [Transfer (collateralToken p) (mCollector (ledger w3)) fee]\<rparr>) @ [Transfer (collateralToken p) (msgSender e) (returned - fee)]\<rparr>"
    by blast
  let ?residual = "if collateralAmount p - returned \<noteq> 0 \<and> assetAmount p - liquidated = 0
                   then [Transfer (collateralToken p) (owner p) (collateralAmount p - returned)] else []"
  let ?before = "calls w @ [TransferFrom (assetToken p) (msgSender e) (thisAddress e) liquidated]
                   @ ?residual"
  let ?after = "if collateralAmount p - returned = 0 \<or> assetAmount p - liquidated = 0 then zeroPosition
             else p\<lparr>collateralAmount := collateralAmount p - returned,
                    assetAmount := assetAmount p - liquidated\<rparr>"
  have w3: "calls w3 = ?before \<and> mProtocolFeeRate (ledger w3) = mProtocolFeeRate (ledger w)
            \<and> mCollector (ledger w3) = mCollector (ledger w)
            \<and> idxPositionMap (ledger w3) positionIndex = ?after
            \<and> ownerPositionIndex (ledger w3) = ownerPositionIndex (ledger w)"
  proof -
    consider (sold) "collateralAmount p - returned = 0"
      | (repaid) "collateralAmount p - returned \<noteq> 0" "assetAmount p - liquidated = 0"
      | (partial) "collateralAmount p - returned \<noteq> 0" "assetAmount p - liquidated \<noteq> 0"
      by blast
    then show ?thesis
    proof cases
      case sold
      with settle show ?thesis by auto
    next
      case repaid
      with settle show ?thesis by (auto simp: callToken_def Let_def split: callres.splits)
    next
      case partial
      with settle show ?thesis by auto
    qed
  qed
  have liq': "liquidated = min requested (min maxLiquidate (assetAmount p))"
    by (simp add: liq min.assoc)
  have fee': "multiplyDecimal returned (mProtocolFeeRate (ledger w)) = Some fee"
    using fee w3 by simp
  have calls': "calls w' = ?before
       @ [Transfer (collateralToken p) (mCollector (ledger w)) fee,
          Transfer (collateralToken p) (msgSender e) (returned - fee)]"
    using w3 by (simp add: w')
  have ledger': "idxPositionMap (ledger w') positionIndex = ?after"
    using w3 by (simp add: w')
  have index': "ownerPositionIndex (ledger w') = ownerPositionIndex (ledger w)"
    using w3 by (simp add: w')
  have pay1': "tokenCall e ?before (Transfer (collateralToken p) (mCollector (ledger w)) fee)
                 = Returned True"
    using pay1 w3 by simp
  have pay2': "tokenCall e (?before @ [Transfer (collateralToken p) (mCollector (ledger w)) fee])
                 (Transfer (collateralToken p) (msgSender e) (returned - fee)) = Returned True"
    using pay2 w3 by simp
  show ?thesis
    apply (rule exI [of _ discountedPrice], rule exI [of _ maxLiquidate], rule exI [of _ liquidated],
           rule exI [of _ returned], rule exI [of _ fee], rule exI [of _ ?residual],
           rule exI [of _ ?before])
    apply (intro conjI)
    apply (rule valid discount dp ml liq' ret ret_le fee' fee_le refl pull pay1' pay2' calls' ledger' index')+
    done
qed

subsection \<open>The auction\<close>



text \<open>
  C9. A transfer that reports failure must abort the operation. The auction does not
  look at the result of the transfer that hands the residual collateral back to the
  owner: when the debt is fully liquidated at price \<open>11\<close> (125 of collateral remain) and
  the token answers \<open>false\<close> to that transfer, the auction still succeeds, removes the
  position and pays the liquidator and the collector.
\<close>

theorem auction_ignores_failed_residual_transfer:
  "tokenCall ((exEnv 12 (11 * unit))\<lparr>tokenCall := (\<lambda>_ c. Returned (c \<noteq> Transfer 1 11 125))\<rparr>)
      (calls exOpened @ [TransferFrom 2 12 100 100]) (Transfer 1 11 125) = Returned False
   \<and> fst (transact (auction ((exEnv 12 (11 * unit))
                \<lparr>tokenCall := (\<lambda>_ c. Returned (c \<noteq> Transfer 1 11 125))\<rparr>) 1 100) exOpened) = Inr ()
   \<and> calls (snd (transact (auction ((exEnv 12 (11 * unit))
                \<lparr>tokenCall := (\<lambda>_ c. Returned (c \<noteq> Transfer 1 11 125))\<rparr>) 1 100) exOpened))
       = calls exOpened @ [TransferFrom 2 12 100 100, Transfer 1 11 125,
                           Transfer 1 70 20, Transfer 1 12 1355]
   \<and> idxPositionMap (ledger (snd (transact (auction ((exEnv 12 (11 * unit))
                \<lparr>tokenCall := (\<lambda>_ c. Returned (c \<noteq> Transfer 1 11 125))\<rparr>) 1 100) exOpened))) 1
       = zeroPosition"
  by (simp add: scenario_eval auction_def)

subsection \<open>The array of live indices and the enumeration queries\<close>

text \<open>
  C8. The array of live indices should hold exactly the indices of the stored positions.
  \<open>removePosition\<close> overwrites the last slot with zero and never shortens the array:
  after the only position of the scenario is closed, the array is \<open>[0]\<close>, and
  \<open>queryPositions\<close> with both wildcards reports one row, all zeros, for a position
  that does not exist.
\<close>

theorem removePosition_leaves_zero_entry:
  "fst (transact (closePosition (exEnv 11 (10 * unit)) 1) exOpened) = Inr ()
   \<and> postionIdxArray (ledger (snd (transact (closePosition (exEnv 11 (10 * unit)) 1) exOpened))) = [0]
   \<and> idxPositionMap (ledger (snd (transact (closePosition (exEnv 11 (10 * unit)) 1) exOpened))) 1
       = zeroPosition
   \<and> queryPositions (ledger (snd (transact (closePosition (exEnv 11 (10 * unit)) 1) exOpened))) 0 0
       = Inr ([0], [0], [0], [0], [0], [0])"
  by (simp add: scenario_eval closePosition_def removePosition_def removeLoop.simps
        queryPositions_def scanLoop.simps newArrays_def writeRow_def writeAt_def)

text \<open>
  C4. \<open>queryInvalidPositioins\<close> should return the positions of the asset whose
  collateral ratio is below the minimum. Its result arrays are allocated with length
  zero, so recording the first such position writes out of range: with the asset at
  price \<open>20\<close> the position of the scenario has ratio \<open>0.75\<close>, is not valid, and the
  query fails instead of returning it.
\<close>

theorem queryInvalidPositioins_fails_on_invalid_position:
  "isValidPostion (ledger exOpened) (idxPositionMap (ledger exOpened) 1) (20 * unit) = Inr False
   \<and> queryInvalidPositioins (exEnv 12 (20 * unit)) (ledger exOpened) 2 = Inl IndexOutOfBounds"
  by (simp add: scenario_eval queryInvalidPositioins_def invalidLoop.simps newArrays_def
        writeRow_def writeAt_def)

subsection \<open>Opening a position\<close>

lemma queryPrice_Inr:
  "queryPrice e s target denominate = Inr r \<Longrightarrow>
     divideDecimal (fst (readPrice e s target)) (fst (readPrice e s denominate)) = Some r"
  by (auto simp: queryPrice_def Let_def split: prod.splits if_splits option.splits)

lemma openPosition_success:
  assumes A: "openPosition e collateralToken' collateralAmount' assetToken' collateralRatio w = Inr (index, w')"
  shows "\<exists>relativePrice collateralValue mintAmount.
      collateralToken' \<noteq> 0 \<and> assetToken' \<noteq> 0 \<and> 0 < collateralAmount'
    \<and> tokenCall e (calls w) (TransferFrom collateralToken' (msgSender e) (thisAddress e) collateralAmount')
         = Returned True
    \<and> token (assetConfigMap (ledger w) assetToken') = assetToken'
    \<and> endPrice (assetConfigMap (ledger w) assetToken') = 0
    \<and> minCollateralRatio (assetConfigMap (ledger w) assetToken') \<le> collateralRatio
    \<and> queryPrice e (ledger w) collateralToken' assetToken' = Inr relativePrice
    \<and> multiplyDecimal collateralAmount' relativePrice = Some collateralValue
    \<and> divideDecimal collateralValue collateralRatio = Some mintAmount
    \<and> 0 < mintAmount
    \<and> index = currentpositionIndex (ledger w)
    \<and> idxPositionMap (ledger w') index =
         \<lparr>idx = index, owner = msgSender e, collateralToken = collateralToken',
          collateralAmount = collateralAmount', assetToken = assetToken', assetAmount = mintAmount\<rparr>
    \<and> currentpositionIndex (ledger w') = (currentpositionIndex (ledger w) + 1) mod 2 ^ 256
    \<and> ownerPositionIndex (ledger w') =
         (ownerPositionIndex (ledger w))(msgSender e :=
            (ownerPositionIndex (ledger w) (msgSender e))(collateralToken' :=
               (ownerPositionIndex (ledger w) (msgSender e) collateralToken')(assetToken' := index)))
    \<and> calls w' = calls w @ [TransferFrom collateralToken' (msgSender e) (thisAddress e) collateralAmount',
                            MintTo assetToken' (msgSender e) mintAmount]"
  using A unfolding openPosition_def Let_def
  apply (simp only: success_simps split_paired_Ex prod.case simp_thms callToken_Inr sum.inject prod.inject)
  apply (elim exE conjE)
  apply hypsubst
  apply (intro exI conjI)
  apply (assumption | simp add: setOwnerPositionIndex_def)+
  done


lemmas peel = success_simps split_paired_Ex prod.case simp_thms callToken_Inr sum.inject prod.inject

text \<open>
  C5. A successful \<open>openPosition\<close> mints
  \<open>collateralAmount * relativePrice / collateralRatio\<close>, each product and quotient
  truncated to the fixed-point unit, where \<open>relativePrice\<close> is the price of the
  collateral token divided by the price of the asset token. It returns the value of the
  position counter; the position stored there has the caller as owner, the collateral
  token, collateral amount and asset token of the call, and the minted amount as debt,
  and \<open>queryPosition\<close> returns these. When the computed amount is zero the call fails,
  with \<open>AmountTooSmall\<close> once the checks before it have passed.
\<close>

theorem openPosition_mints_and_stores:
  "(openPosition e collateralToken' collateralAmount' assetToken' collateralRatio w = Inr (index, w') \<longrightarrow>
      (\<exists>relativePrice collateralValue mintAmount.
          divideDecimal (fst (readPrice e (ledger w) collateralToken'))
                        (fst (readPrice e (ledger w) assetToken')) = Some relativePrice
        \<and> multiplyDecimal collateralAmount' relativePrice = Some collateralValue
        \<and> divideDecimal collateralValue collateralRatio = Some mintAmount
        \<and> relativePrice = fst (readPrice e (ledger w) collateralToken') * unit
                             div fst (readPrice e (ledger w) assetToken')
        \<and> mintAmount = (collateralAmount' * relativePrice div unit) * unit div collateralRatio
        \<and> 0 < mintAmount
        \<and> index = currentpositionIndex (ledger w)
        \<and> idxPositionMap (ledger w') index =
             \<lparr>idx = index, owner = msgSender e, collateralToken = collateralToken',
              collateralAmount = collateralAmount', assetToken = assetToken',
              assetAmount = mintAmount\<rparr>
        \<and> queryPosition (ledger w') index =
             (msgSender e, collateralToken', collateralAmount', assetToken', mintAmount)
        \<and> queryPositionIndex (ledger w') (msgSender e) collateralToken' assetToken' = index
        \<and> calls w' = calls w @ [TransferFrom collateralToken' (msgSender e) (thisAddress e) collateralAmount',
                                MintTo assetToken' (msgSender e) mintAmount]))
   \<and> (queryPrice e (ledger w) collateralToken' assetToken' = Inr rel
        \<and> multiplyDecimal collateralAmount' rel = Some val
        \<and> divideDecimal val collateralRatio = Some 0 \<longrightarrow>
        (\<exists>err wx. openPosition e collateralToken' collateralAmount' assetToken' collateralRatio w
                     = Inl (err, wx))
        \<and> (collateralToken' \<noteq> 0 \<and> assetToken' \<noteq> 0 \<and> 0 < collateralAmount'
            \<and> tokenCall e (calls w)
                 (TransferFrom collateralToken' (msgSender e) (thisAddress e) collateralAmount')
                 = Returned True
            \<and> token (assetConfigMap (ledger w) assetToken') = assetToken'
            \<and> endPrice (assetConfigMap (ledger w) assetToken') = 0
            \<and> 0 < minCollateralRatio (assetConfigMap (ledger w) assetToken')
            \<and> minCollateralRatio (assetConfigMap (ledger w) assetToken') \<le> collateralRatio \<longrightarrow>
            openPosition e collateralToken' collateralAmount' assetToken' collateralRatio w
              = Inl (AmountTooSmall,
                     w\<lparr>calls := calls w @ [TransferFrom collateralToken' (msgSender e)
                                             (thisAddress e) collateralAmount']\<rparr>)))"
proof (intro conjI impI)
  assume A: "openPosition e collateralToken' collateralAmount' assetToken' collateralRatio w = Inr (index, w')"
  from openPosition_success [OF A]
  obtain relativePrice collateralValue mintAmount where
        rel: "queryPrice e (ledger w) collateralToken' assetToken' = Inr relativePrice"
    and cv: "multiplyDecimal collateralAmount' relativePrice = Some collateralValue"
    and ma: "divideDecimal collateralValue collateralRatio = Some mintAmount"
    and pos: "0 < mintAmount"
    and index: "index = currentpositionIndex (ledger w)"
    and stored: "idxPositionMap (ledger w') index =
         \<lparr>idx = index, owner = msgSender e, collateralToken = collateralToken',
          collateralAmount = collateralAmount', assetToken = assetToken', assetAmount = mintAmount\<rparr>"
    and oidx: "ownerPositionIndex (ledger w') =
         (ownerPositionIndex (ledger w))(msgSender e :=
            (ownerPositionIndex (ledger w) (msgSender e))(collateralToken' :=
               (ownerPositionIndex (ledger w) (msgSender e) collateralToken')(assetToken' := index)))"
    and calls': "calls w' = calls w @ [TransferFrom collateralToken' (msgSender e) (thisAddress e) collateralAmount',
                            MintTo assetToken' (msgSender e) mintAmount]"
    by blast
  note rel' = queryPrice_Inr [OF rel]
  have "relativePrice = fst (readPrice e (ledger w) collateralToken') * unit
                             div fst (readPrice e (ledger w) assetToken')"
    using rel' by (simp add: checked_simps)
  moreover have "mintAmount = (collateralAmount' * relativePrice div unit) * unit div collateralRatio"
    using cv ma by (simp add: checked_simps)
  moreover have "queryPosition (ledger w') index =
             (msgSender e, collateralToken', collateralAmount', assetToken', mintAmount)"
    by (simp add: queryPosition_def stored)
  moreover have "queryPositionIndex (ledger w') (msgSender e) collateralToken' assetToken' = index"
    by (simp add: queryPositionIndex_def oidx)
  ultimately show "\<exists>relativePrice collateralValue mintAmount.
          divideDecimal (fst (readPrice e (ledger w) collateralToken'))
                        (fst (readPrice e (ledger w) assetToken')) = Some relativePrice
        \<and> multiplyDecimal collateralAmount' relativePrice = Some collateralValue
        \<and> divideDecimal collateralValue collateralRatio = Some mintAmount
        \<and> relativePrice = fst (readPrice e (ledger w) collateralToken') * unit
                             div fst (readPrice e (ledger w) assetToken')
        \<and> mintAmount = (collateralAmount' * relativePrice div unit) * unit div collateralRatio
        \<and> 0 < mintAmount
        \<and> index = currentpositionIndex (ledger w)
        \<and> idxPositionMap (ledger w') index =
             \<lparr>idx = index, owner = msgSender e, collateralToken = collateralToken',
              collateralAmount = collateralAmount', assetToken = assetToken',
              assetAmount = mintAmount\<rparr>
        \<and> queryPosition (ledger w') index =
             (msgSender e, collateralToken', collateralAmount', assetToken', mintAmount)
        \<and> queryPositionIndex (ledger w') (msgSender e) collateralToken' assetToken' = index
        \<and> calls w' = calls w @ [TransferFrom collateralToken' (msgSender e) (thisAddress e) collateralAmount',
                                MintTo assetToken' (msgSender e) mintAmount]"
    using rel' cv ma pos index stored calls' by blast
next
  assume Z: "queryPrice e (ledger w) collateralToken' assetToken' = Inr rel
        \<and> multiplyDecimal collateralAmount' rel = Some val
        \<and> divideDecimal val collateralRatio = Some 0"
  show "\<exists>err wx. openPosition e collateralToken' collateralAmount' assetToken' collateralRatio w
                     = Inl (err, wx)"
  proof (cases "openPosition e collateralToken' collateralAmount' assetToken' collateralRatio w")
    case (Inl failure)
    then show ?thesis by (cases failure) simp
  next
    case (Inr success)
    obtain index w' where "success = (index, w')" by (cases success)
    from openPosition_success [OF Inr [unfolded this]] Z show ?thesis by auto
  qed
next
  assume Z: "queryPrice e (ledger w) collateralToken' assetToken' = Inr rel
        \<and> multiplyDecimal collateralAmount' rel = Some val
        \<and> divideDecimal val collateralRatio = Some 0"
    and C: "collateralToken' \<noteq> 0 \<and> assetToken' \<noteq> 0 \<and> 0 < collateralAmount'
            \<and> tokenCall e (calls w)
                 (TransferFrom collateralToken' (msgSender e) (thisAddress e) collateralAmount')
                 = Returned True
            \<and> token (assetConfigMap (ledger w) assetToken') = assetToken'
            \<and> endPrice (assetConfigMap (ledger w) assetToken') = 0
            \<and> 0 < minCollateralRatio (assetConfigMap (ledger w) assetToken')
            \<and> minCollateralRatio (assetConfigMap (ledger w) assetToken') \<le> collateralRatio"
  then show "openPosition e collateralToken' collateralAmount' assetToken' collateralRatio w
              = Inl (AmountTooSmall,
                     w\<lparr>calls := calls w @ [TransferFrom collateralToken' (msgSender e)
                                             (thisAddress e) collateralAmount']\<rparr>)"
    by (simp add: openPosition_def Let_def callToken_def)
qed

theorem openPosition_mints_and_stores_witness:
  "openPosition (exEnv 11 (10 * unit)) 1 1500 2 (3 * unit div 2) exConfigured = Inr (1, exOpened)
   \<and> queryPosition (ledger exOpened) 1 = (11, 1, 1500, 2, 100)
   \<and> queryPositionIndex (ledger exOpened) 11 1 2 = 1
   \<and> queryPrice (exEnv 11 (10 * unit)) (ledger exConfigured) 1 2 = Inr (unit div 10)
   \<and> multiplyDecimal 1 (unit div 10) = Some 0
   \<and> divideDecimal 0 (3 * unit div 2) = Some 0
   \<and> openPosition (exEnv 11 (10 * unit)) 1 1 2 (3 * unit div 2) exConfigured
       = Inl (AmountTooSmall, exConfigured\<lparr>calls := [TransferFrom 1 11 100 1]\<rparr>)"
proof -
  have opened: "openPosition (exEnv 11 (10 * unit)) 1 1500 2 (3 * unit div 2) exConfigured = Inr (1, exOpened)"
    by (simp add: scenario_eval openPosition_def fun_eq_iff)
  have zero: "queryPrice (exEnv 11 (10 * unit)) (ledger exConfigured) 1 2 = Inr (unit div 10)
        \<and> multiplyDecimal 1 (unit div 10) = Some 0
        \<and> divideDecimal 0 (3 * unit div 2) = Some 0"
    by (simp add: scenario_eval)
  have checks: "(1::nat) \<noteq> 0 \<and> (2::nat) \<noteq> 0 \<and> (0::nat) < 1
            \<and> tokenCall (exEnv 11 (10 * unit)) (calls exConfigured)
                 (TransferFrom 1 (msgSender (exEnv 11 (10 * unit))) (thisAddress (exEnv 11 (10 * unit))) 1)
                 = Returned True
            \<and> token (assetConfigMap (ledger exConfigured) 2) = 2
            \<and> endPrice (assetConfigMap (ledger exConfigured) 2) = 0
            \<and> 0 < minCollateralRatio (assetConfigMap (ledger exConfigured) 2)
            \<and> minCollateralRatio (assetConfigMap (ledger exConfigured) 2) \<le> 3 * unit div 2"
    by (simp add: scenario_eval)
  have calls0: "calls exConfigured = []"
    and env: "msgSender (exEnv 11 (10 * unit)) = 11" "thisAddress (exEnv 11 (10 * unit)) = 100"
    by (simp_all add: scenario_eval)
  have stored: "queryPosition (ledger exOpened) 1 = (11, 1, 1500, 2, 100)
     \<and> queryPositionIndex (ledger exOpened) 11 1 2 = 1"
    using openPosition_mints_and_stores
      [where e = "exEnv 11 (10 * unit)" and collateralToken' = 1 and collateralAmount' = 1500
         and assetToken' = 2 and collateralRatio = "3 * unit div 2" and w = exConfigured
         and index = 1 and w' = exOpened] opened
    by (simp add: scenario_eval queryPosition_def queryPositionIndex_def)
  have small: "openPosition (exEnv 11 (10 * unit)) 1 1 2 (3 * unit div 2) exConfigured
       = Inl (AmountTooSmall, exConfigured\<lparr>calls := [TransferFrom 1 11 100 1]\<rparr>)"
    using openPosition_mints_and_stores
      [where e = "exEnv 11 (10 * unit)" and collateralToken' = 1 and collateralAmount' = 1
         and assetToken' = 2 and collateralRatio = "3 * unit div 2" and w = exConfigured
         and rel = "unit div 10" and val = 0] zero checks
    by (simp add: calls0 env)
  show ?thesis using opened stored zero small by blast
qed

subsection \<open>Closing a position and the owner index\<close>

lemma closePosition_success:
  assumes A: "closePosition e positionIndex w = Inr ((), w')"
    and p: "idxPositionMap (ledger w) positionIndex = p"
  shows "\<exists>fee.
      0 < assetAmount p \<and> assetToken p \<noteq> 0 \<and> 0 < collateralAmount p
    \<and> owner p = msgSender e
    \<and> multiplyDecimal (collateralAmount p) (mProtocolFeeRate (ledger w)) = Some fee
    \<and> fee \<le> collateralAmount p
    \<and> idxPositionMap (ledger w') positionIndex = zeroPosition
    \<and> ownerPositionIndex (ledger w') (msgSender e) (collateralToken p) (assetToken p) = 0
    \<and> calls w' = calls w @
         [TransferFrom (assetToken p) (msgSender e) (thisAddress e) (assetAmount p),
          BurnFrom (assetToken p) (thisAddress e) (assetAmount p),
          Transfer (collateralToken p) (msgSender e) (collateralAmount p - fee),
          Transfer (collateralToken p) (mCollector (ledger w)) fee]"
  using A unfolding closePosition_def Let_def p
  apply (simp only: peel sub_checked_Some)
  apply (elim exE conjE)
  apply hypsubst
  apply (intro exI conjI)
  apply (assumption | simp add: setOwnerPositionIndex_def)+
  done

lemma withdraw_keeps_ownerPositionIndex:
  assumes A: "withdraw e positionIndex collateralToken' withdrawAmount w = Inr ((), w')"
  shows "ownerPositionIndex (ledger w') = ownerPositionIndex (ledger w)"
  using A unfolding withdraw_def Let_def
  apply (simp only: peel)
  apply (elim exE conjE)
  apply hypsubst
  apply (simp split: if_splits)
  done

lemma deposit_keeps_ownerPositionIndex:
  assumes A: "deposit e positionIndex collateralToken' collateralAmount' w = Inr ((), w')"
  shows "ownerPositionIndex (ledger w') = ownerPositionIndex (ledger w)"
  using A unfolding deposit_def Let_def
  apply (simp only: peel)
  apply (elim exE conjE)
  apply hypsubst
  apply simp
  done

lemma mint_keeps_ownerPositionIndex:
  assumes A: "mint e positionIndex assetToken' assetAmount' w = Inr ((), w')"
  shows "ownerPositionIndex (ledger w') = ownerPositionIndex (ledger w)"
  using A unfolding mint_def Let_def
  apply (simp only: peel)
  apply (elim exE conjE)
  apply hypsubst
  apply simp
  done


text \<open>
  C7. \<open>closePosition\<close> succeeds only for the owner of a position whose debt and
  collateral are both positive. After it, \<open>queryPosition\<close> returns the zero position
  and the entry of the owner index for the owner and the token pair of the position reads
  zero, the value of an absent entry, so it does not point to the closed index (indices
  start at one). No other operation clears an entry: \<open>auction\<close>, also when it removes
  the position, \<open>withdraw\<close>, \<open>deposit\<close> and \<open>mint\<close> leave the owner index as it
  is, and \<open>openPosition\<close> only overwrites the entry of the caller and the pair with
  the new index.
\<close>

theorem closePosition_clears_position_and_index:
  "(closePosition e positionIndex w = Inr ((), w') \<longrightarrow>
      (let p = idxPositionMap (ledger w) positionIndex
       in owner p = msgSender e \<and> 0 < assetAmount p \<and> 0 < collateralAmount p
        \<and> queryPosition (ledger w') positionIndex = (0, 0, 0, 0, 0)
        \<and> queryPositionIndex (ledger w') (owner p) (collateralToken p) (assetToken p) = 0
        \<and> (0 < positionIndex \<longrightarrow>
             queryPositionIndex (ledger w') (owner p) (collateralToken p) (assetToken p)
               \<noteq> positionIndex)))
   \<and> (auction ea ia requested w = Inr ((), wa) \<longrightarrow>
        ownerPositionIndex (ledger wa) = ownerPositionIndex (ledger w))
   \<and> (withdraw eb ib collateralTokenb withdrawAmount w = Inr ((), wb) \<longrightarrow>
        ownerPositionIndex (ledger wb) = ownerPositionIndex (ledger w))
   \<and> (deposit ec ic collateralTokenc collateralAmountc w = Inr ((), wc) \<longrightarrow>
        ownerPositionIndex (ledger wc) = ownerPositionIndex (ledger w))
   \<and> (mint ed id' assetTokend assetAmountd w = Inr ((), wd) \<longrightarrow>
        ownerPositionIndex (ledger wd) = ownerPositionIndex (ledger w))
   \<and> (openPosition eo collateralTokeno collateralAmounto assetTokeno collateralRatio w = Inr (k, wo) \<longrightarrow>
        ownerPositionIndex (ledger wo) =
          (ownerPositionIndex (ledger w))(msgSender eo :=
             (ownerPositionIndex (ledger w) (msgSender eo))(collateralTokeno :=
                (ownerPositionIndex (ledger w) (msgSender eo) collateralTokeno)(assetTokeno := k))))"
proof (intro conjI impI)
  assume A: "closePosition e positionIndex w = Inr ((), w')"
  define p where "p = idxPositionMap (ledger w) positionIndex"
  from closePosition_success [OF A p_def [symmetric]]
  have own: "owner p = msgSender e" and pos: "0 < assetAmount p" "0 < collateralAmount p"
    and gone: "idxPositionMap (ledger w') positionIndex = zeroPosition"
    and cleared: "ownerPositionIndex (ledger w') (msgSender e) (collateralToken p) (assetToken p) = 0"
    by blast+
  have "queryPosition (ledger w') positionIndex = (0, 0, 0, 0, 0)"
    by (simp add: queryPosition_def gone zeroPosition_def)
  moreover have "queryPositionIndex (ledger w') (owner p) (collateralToken p) (assetToken p) = 0"
    by (simp add: queryPositionIndex_def own cleared)
  ultimately show "let p = idxPositionMap (ledger w) positionIndex
       in owner p = msgSender e \<and> 0 < assetAmount p \<and> 0 < collateralAmount p
        \<and> queryPosition (ledger w') positionIndex = (0, 0, 0, 0, 0)
        \<and> queryPositionIndex (ledger w') (owner p) (collateralToken p) (assetToken p) = 0
        \<and> (0 < positionIndex \<longrightarrow>
             queryPositionIndex (ledger w') (owner p) (collateralToken p) (assetToken p)
               \<noteq> positionIndex)"
    unfolding Let_def p_def [symmetric] using own pos by simp
next
  assume "auction ea ia requested w = Inr ((), wa)"
  from auction_success_settled [OF this refl refl refl]
  show "ownerPositionIndex (ledger wa) = ownerPositionIndex (ledger w)"
    by blast
next
  assume "withdraw eb ib collateralTokenb withdrawAmount w = Inr ((), wb)"
  then show "ownerPositionIndex (ledger wb) = ownerPositionIndex (ledger w)"
    by (rule withdraw_keeps_ownerPositionIndex)
next
  assume "deposit ec ic collateralTokenc collateralAmountc w = Inr ((), wc)"
  then show "ownerPositionIndex (ledger wc) = ownerPositionIndex (ledger w)"
    by (rule deposit_keeps_ownerPositionIndex)
next
  assume "mint ed id' assetTokend assetAmountd w = Inr ((), wd)"
  then show "ownerPositionIndex (ledger wd) = ownerPositionIndex (ledger w)"
    by (rule mint_keeps_ownerPositionIndex)
next
  assume "openPosition eo collateralTokeno collateralAmounto assetTokeno collateralRatio w = Inr (k, wo)"
  from openPosition_success [OF this]
  show "ownerPositionIndex (ledger wo) =
          (ownerPositionIndex (ledger w))(msgSender eo :=
             (ownerPositionIndex (ledger w) (msgSender eo))(collateralTokeno :=
                (ownerPositionIndex (ledger w) (msgSender eo) collateralTokeno)(assetTokeno := k)))"
    by blast
qed

theorem closePosition_clears_position_and_index_witness:
  "closePosition (exEnv 11 (10 * unit)) 1 exOpened
     = Inr ((), snd (transact (closePosition (exEnv 11 (10 * unit)) 1) exOpened))
   \<and> (0::nat) < 1
   \<and> auction (exEnv 12 (12 * unit)) 1 100 exOpened
       = Inr ((), snd (transact (auction (exEnv 12 (12 * unit)) 1 100) exOpened))
   \<and> withdraw (exEnv 11 (5 * unit)) 1 1 500 exOpened
       = Inr ((), snd (transact (withdraw (exEnv 11 (5 * unit)) 1 1 500) exOpened))
   \<and> deposit (exEnv 11 (10 * unit)) 1 1 500 exOpened
       = Inr ((), snd (transact (deposit (exEnv 11 (10 * unit)) 1 1 500) exOpened))
   \<and> mint (exEnv 11 (10 * unit)) 1 2 50 exOpened
       = Inr ((), snd (transact (mint (exEnv 11 (10 * unit)) 1 2 50) exOpened))
   \<and> openPosition (exEnv 11 (10 * unit)) 1 1500 2 (3 * unit div 2) exOpened
       = Inr (2, snd (transact (openPosition (exEnv 11 (10 * unit)) 1 1500 2 (3 * unit div 2)) exOpened))
   \<and> queryPosition (ledger (snd (transact (closePosition (exEnv 11 (10 * unit)) 1) exOpened))) 1
       = (0, 0, 0, 0, 0)
   \<and> queryPositionIndex (ledger (snd (transact (closePosition (exEnv 11 (10 * unit)) 1) exOpened))) 11 1 2
       = 0
   \<and> queryPosition (ledger (snd (transact (auction (exEnv 12 (12 * unit)) 1 100) exOpened))) 1
       = (0, 0, 0, 0, 0)
   \<and> queryPositionIndex (ledger (snd (transact (auction (exEnv 12 (12 * unit)) 1 100) exOpened))) 11 1 2
       = 1
   \<and> queryPositionIndex (ledger (snd (transact (withdraw (exEnv 11 (5 * unit)) 1 1 500) exOpened))) 11 1 2
       = 1
   \<and> queryPositionIndex (ledger (snd (transact (deposit (exEnv 11 (10 * unit)) 1 1 500) exOpened))) 11 1 2
       = 1
   \<and> queryPositionIndex (ledger (snd (transact (mint (exEnv 11 (10 * unit)) 1 2 50) exOpened))) 11 1 2
       = 1
   \<and> queryPositionIndex (ledger (snd (transact
          (openPosition (exEnv 11 (10 * unit)) 1 1500 2 (3 * unit div 2)) exOpened))) 11 1 2 = 2"
proof -
  have closed: "closePosition (exEnv 11 (10 * unit)) 1 exOpened
     = Inr ((), snd (transact (closePosition (exEnv 11 (10 * unit)) 1) exOpened))"
    by (simp add: scenario_eval closePosition_def)
  have auctioned: "auction (exEnv 12 (12 * unit)) 1 100 exOpened
       = Inr ((), snd (transact (auction (exEnv 12 (12 * unit)) 1 100) exOpened))"
    by (simp add: scenario_eval auction_def)
  have withdrawn: "withdraw (exEnv 11 (5 * unit)) 1 1 500 exOpened
       = Inr ((), snd (transact (withdraw (exEnv 11 (5 * unit)) 1 1 500) exOpened))"
    by (simp add: scenario_eval withdraw_def)
  have deposited: "deposit (exEnv 11 (10 * unit)) 1 1 500 exOpened
       = Inr ((), snd (transact (deposit (exEnv 11 (10 * unit)) 1 1 500) exOpened))"
    by (simp add: scenario_eval deposit_def)
  have minted: "mint (exEnv 11 (10 * unit)) 1 2 50 exOpened
       = Inr ((), snd (transact (mint (exEnv 11 (10 * unit)) 1 2 50) exOpened))"
    by (simp add: scenario_eval mint_def)
  have opened: "openPosition (exEnv 11 (10 * unit)) 1 1500 2 (3 * unit div 2) exOpened
       = Inr (2, snd (transact (openPosition (exEnv 11 (10 * unit)) 1 1500 2 (3 * unit div 2)) exOpened))"
    by (simp add: scenario_eval openPosition_def)
  have before: "idxPositionMap (ledger exOpened) 1 =
      \<lparr>idx = 1, owner = 11, collateralToken = 1, collateralAmount = 1500,
       assetToken = 2, assetAmount = 100\<rparr>"
    "ownerPositionIndex (ledger exOpened) 11 1 2 = 1"
    by (simp_all add: scenario_eval)
  note inst = closePosition_clears_position_and_index
      [where e = "exEnv 11 (10 * unit)" and positionIndex = 1 and w = exOpened
         and w' = "snd (transact (closePosition (exEnv 11 (10 * unit)) 1) exOpened)"
         and ea = "exEnv 12 (12 * unit)" and ia = 1 and requested = 100
         and wa = "snd (transact (auction (exEnv 12 (12 * unit)) 1 100) exOpened)"
         and eb = "exEnv 11 (5 * unit)" and ib = 1 and collateralTokenb = 1 and withdrawAmount = 500
         and wb = "snd (transact (withdraw (exEnv 11 (5 * unit)) 1 1 500) exOpened)"
         and ec = "exEnv 11 (10 * unit)" and ic = 1 and collateralTokenc = 1 and collateralAmountc = 500
         and wc = "snd (transact (deposit (exEnv 11 (10 * unit)) 1 1 500) exOpened)"
         and ed = "exEnv 11 (10 * unit)" and id' = 1 and assetTokend = 2 and assetAmountd = 50
         and wd = "snd (transact (mint (exEnv 11 (10 * unit)) 1 2 50) exOpened)"
         and eo = "exEnv 11 (10 * unit)" and collateralTokeno = 1 and collateralAmounto = 1500
         and assetTokeno = 2 and collateralRatio = "3 * unit div 2" and k = 2
         and wo = "snd (transact (openPosition (exEnv 11 (10 * unit)) 1 1500 2 (3 * unit div 2)) exOpened)"]
  have c1: "queryPosition (ledger (snd (transact (closePosition (exEnv 11 (10 * unit)) 1) exOpened))) 1
       = (0, 0, 0, 0, 0)
   \<and> queryPositionIndex (ledger (snd (transact (closePosition (exEnv 11 (10 * unit)) 1) exOpened))) 11 1 2
       = 0"
    using inst [THEN conjunct1, rule_format, OF closed] unfolding Let_def before by simp
  have c2: "queryPositionIndex (ledger (snd (transact (auction (exEnv 12 (12 * unit)) 1 100) exOpened))) 11 1 2
       = 1"
    using inst [THEN conjunct2, THEN conjunct1, rule_format, OF auctioned] before(2)
    by (simp add: queryPositionIndex_def)
  have c3: "queryPosition (ledger (snd (transact (auction (exEnv 12 (12 * unit)) 1 100) exOpened))) 1
       = (0, 0, 0, 0, 0)"
    by (simp add: scenario_eval auction_def queryPosition_def)
  have c4: "queryPositionIndex (ledger (snd (transact (withdraw (exEnv 11 (5 * unit)) 1 1 500) exOpened))) 11 1 2
       = 1"
    using inst [THEN conjunct2, THEN conjunct2, THEN conjunct1, rule_format, OF withdrawn] before(2)
    by (simp add: queryPositionIndex_def)
  have c5: "queryPositionIndex (ledger (snd (transact (deposit (exEnv 11 (10 * unit)) 1 1 500) exOpened))) 11 1 2
       = 1"
    using inst [THEN conjunct2, THEN conjunct2, THEN conjunct2, THEN conjunct1, rule_format,
                OF deposited] before(2)
    by (simp add: queryPositionIndex_def)
  have c6: "queryPositionIndex (ledger (snd (transact (mint (exEnv 11 (10 * unit)) 1 2 50) exOpened))) 11 1 2
       = 1"
    using inst [THEN conjunct2, THEN conjunct2, THEN conjunct2, THEN conjunct2, THEN conjunct1,
                rule_format, OF minted] before(2)
    by (simp add: queryPositionIndex_def)
  have c7: "queryPositionIndex (ledger (snd (transact
          (openPosition (exEnv 11 (10 * unit)) 1 1500 2 (3 * unit div 2)) exOpened))) 11 1 2 = 2"
    using inst [THEN conjunct2, THEN conjunct2, THEN conjunct2, THEN conjunct2, THEN conjunct2,
                rule_format, OF opened]
    by (simp add: queryPositionIndex_def exEnv_def)
  show ?thesis
    using closed auctioned withdrawn deposited minted opened c1 c2 c3 c4 c5 c6 c7 by simp
qed

subsection \<open>Registration and migration of assets\<close>

lemma exMigrated_reached:
  "transact (registerMigration (exEnv 10 (10 * unit)) 2 (12 * unit)) exOpened = (Inr (), exMigrated)"
  by (simp add: scenario_eval registerMigration_def onlyFactoryOrOwner_def saveAssetConfig_def
        exMigrated_def fun_eq_iff)

lemma failure_cases:
  "(\<And>r. x \<noteq> Inr r) \<Longrightarrow> \<exists>err wx. x = Inl (err, wx)"
  by (cases x) auto

lemma mint_success:
  assumes A: "mint e positionIndex assetToken' assetAmount' w = Inr ((), w')"
  shows "endPrice (assetConfigMap (ledger w) (assetToken (idxPositionMap (ledger w) positionIndex))) = 0
       \<and> assetToken' = assetToken (idxPositionMap (ledger w) positionIndex)"
  using A unfolding mint_def Let_def
  by (simp only: peel)

lemma deposit_success:
  assumes A: "deposit e positionIndex collateralToken' collateralAmount' w = Inr ((), w')"
  shows "endPrice (assetConfigMap (ledger w) (assetToken (idxPositionMap (ledger w) positionIndex))) = 0"
  using A unfolding deposit_def Let_def
  by (simp only: peel)

text \<open>
  C6. \<open>registerAsset\<close> on an asset whose stored configuration has a nonzero token
  fails, with \<open>AlreadyRegistered\<close> for a caller who passes the factory-or-owner
  check. A successful \<open>registerMigration\<close> stores exactly one unit as the minimum
  collateral ratio and the given end price, and it succeeds for an authorized caller
  and a nonzero asset. While the end price of an asset is nonzero, every
  \<open>openPosition\<close> and every \<open>mint\<close> for that asset and every \<open>mint\<close> and
  \<open>deposit\<close> on a position of that asset fail; the failure is \<open>AssetDeprecated\<close>
  once the checks that come before the deprecation check have passed.
\<close>

theorem registration_and_migration:
  "(token (assetConfigMap (ledger w) assetToken') \<noteq> 0 \<longrightarrow>
      (\<exists>err. registerAsset e assetToken' auctionDiscount' minCollateralRatio' w = Inl (err, w))
      \<and> (onlyFactoryOrOwner e (ledger w) \<longrightarrow>
           registerAsset e assetToken' auctionDiscount' minCollateralRatio' w
             = Inl (AlreadyRegistered, w)))
   \<and> (registerMigration e assetToken' endPrice' w = Inr ((), w') \<longrightarrow>
        minCollateralRatio (assetConfigMap (ledger w') assetToken') = unit
        \<and> endPrice (assetConfigMap (ledger w') assetToken') = endPrice'
        \<and> queryAssetConfig (ledger w') assetToken'
            = (auctionDiscount (assetConfigMap (ledger w) assetToken'), unit, endPrice'))
   \<and> (onlyFactoryOrOwner e (ledger w) \<and> assetToken' \<noteq> 0 \<longrightarrow>
        (\<exists>w'. registerMigration e assetToken' endPrice' w = Inr ((), w')))
   \<and> (endPrice (assetConfigMap (ledger v) migrated) \<noteq> 0 \<longrightarrow>
        (\<exists>err wx. openPosition eo collateralToken' collateralAmount' migrated collateralRatio v
                     = Inl (err, wx))
        \<and> (\<exists>err wx. mint em positionIndexm migrated assetAmount' v = Inl (err, wx))
        \<and> (collateralToken' \<noteq> 0 \<and> migrated \<noteq> 0 \<and> 0 < collateralAmount'
            \<and> tokenCall eo (calls v)
                 (TransferFrom collateralToken' (msgSender eo) (thisAddress eo) collateralAmount')
                 = Returned True
            \<and> token (assetConfigMap (ledger v) migrated) = migrated \<longrightarrow>
            openPosition eo collateralToken' collateralAmount' migrated collateralRatio v
              = Inl (AssetDeprecated,
                     v\<lparr>calls := calls v @ [TransferFrom collateralToken' (msgSender eo)
                                             (thisAddress eo) collateralAmount']\<rparr>)))
   \<and> (endPrice (assetConfigMap (ledger v) (assetToken (idxPositionMap (ledger v) positionIndex))) \<noteq> 0 \<longrightarrow>
        (\<exists>err wx. mint em positionIndex assetTokenm assetAmount' v = Inl (err, wx))
        \<and> (\<exists>err wx. deposit ed positionIndex collateralTokend collateralAmountd v = Inl (err, wx))
        \<and> (assetTokenm \<noteq> 0 \<and> owner (idxPositionMap (ledger v) positionIndex) = msgSender em
            \<and> assetTokenm = assetToken (idxPositionMap (ledger v) positionIndex)
            \<and> 0 < assetAmount' \<longrightarrow>
            mint em positionIndex assetTokenm assetAmount' v = Inl (AssetDeprecated, v))
        \<and> (collateralTokend \<noteq> 0 \<and> 0 < positionIndex
            \<and> owner (idxPositionMap (ledger v) positionIndex) = msgSender ed
            \<and> collateralToken (idxPositionMap (ledger v) positionIndex) = collateralTokend
            \<and> collateralAmountd \<noteq> 0 \<longrightarrow>
            deposit ed positionIndex collateralTokend collateralAmountd v = Inl (AssetDeprecated, v)))"
proof (intro conjI impI)
  assume "token (assetConfigMap (ledger w) assetToken') \<noteq> 0"
  then show "\<exists>err. registerAsset e assetToken' auctionDiscount' minCollateralRatio' w = Inl (err, w)"
    by (simp add: registerAsset_def)
next
  assume "token (assetConfigMap (ledger w) assetToken') \<noteq> 0" "onlyFactoryOrOwner e (ledger w)"
  then show "registerAsset e assetToken' auctionDiscount' minCollateralRatio' w = Inl (AlreadyRegistered, w)"
    by (simp add: registerAsset_def)
next
  assume M: "registerMigration e assetToken' endPrice' w = Inr ((), w')"
  then have w': "w' = onLedger (saveAssetConfig assetToken'
       ((assetConfigMap (ledger w) assetToken')\<lparr>endPrice := endPrice', minCollateralRatio := unit\<rparr>)) w"
    by (auto simp: registerMigration_def Let_def split: if_splits)
  show "minCollateralRatio (assetConfigMap (ledger w') assetToken') = unit"
    and "endPrice (assetConfigMap (ledger w') assetToken') = endPrice'"
    and "queryAssetConfig (ledger w') assetToken'
            = (auctionDiscount (assetConfigMap (ledger w) assetToken'), unit, endPrice')"
    by (simp_all add: w' saveAssetConfig_def queryAssetConfig_def)
next
  assume "onlyFactoryOrOwner e (ledger w) \<and> assetToken' \<noteq> 0"
  then show "\<exists>w'. registerMigration e assetToken' endPrice' w = Inr ((), w')"
    by (simp add: registerMigration_def Let_def)
next
  assume D: "endPrice (assetConfigMap (ledger v) migrated) \<noteq> 0"
  show "\<exists>err wx. openPosition eo collateralToken' collateralAmount' migrated collateralRatio v
                     = Inl (err, wx)"
  proof (rule failure_cases)
    fix r
    show "openPosition eo collateralToken' collateralAmount' migrated collateralRatio v \<noteq> Inr r"
    proof
      assume S: "openPosition eo collateralToken' collateralAmount' migrated collateralRatio v = Inr r"
      obtain index w' where "r = (index, w')" by (cases r)
      from openPosition_success [OF S [unfolded this]] D show False by blast
    qed
  qed
  show "\<exists>err wx. mint em positionIndexm migrated assetAmount' v = Inl (err, wx)"
  proof (rule failure_cases)
    fix r
    show "mint em positionIndexm migrated assetAmount' v \<noteq> Inr r"
    proof
      assume S: "mint em positionIndexm migrated assetAmount' v = Inr r"
      obtain w' where "r = ((), w')" by (cases r) auto
      from mint_success [OF S [unfolded this]] D show False by simp
    qed
  qed
next
  assume "endPrice (assetConfigMap (ledger v) migrated) \<noteq> 0"
    and "collateralToken' \<noteq> 0 \<and> migrated \<noteq> 0 \<and> 0 < collateralAmount'
            \<and> tokenCall eo (calls v)
                 (TransferFrom collateralToken' (msgSender eo) (thisAddress eo) collateralAmount')
                 = Returned True
            \<and> token (assetConfigMap (ledger v) migrated) = migrated"
  then show "openPosition eo collateralToken' collateralAmount' migrated collateralRatio v
              = Inl (AssetDeprecated,
                     v\<lparr>calls := calls v @ [TransferFrom collateralToken' (msgSender eo)
                                             (thisAddress eo) collateralAmount']\<rparr>)"
    by (simp add: openPosition_def Let_def callToken_def)
next
  assume D: "endPrice (assetConfigMap (ledger v) (assetToken (idxPositionMap (ledger v) positionIndex))) \<noteq> 0"
  show "\<exists>err wx. mint em positionIndex assetTokenm assetAmount' v = Inl (err, wx)"
  proof (rule failure_cases)
    fix r
    show "mint em positionIndex assetTokenm assetAmount' v \<noteq> Inr r"
    proof
      assume S: "mint em positionIndex assetTokenm assetAmount' v = Inr r"
      obtain w' where "r = ((), w')" by (cases r) auto
      from mint_success [OF S [unfolded this]] D show False by simp
    qed
  qed
  show "\<exists>err wx. deposit ed positionIndex collateralTokend collateralAmountd v = Inl (err, wx)"
  proof (rule failure_cases)
    fix r
    show "deposit ed positionIndex collateralTokend collateralAmountd v \<noteq> Inr r"
    proof
      assume S: "deposit ed positionIndex collateralTokend collateralAmountd v = Inr r"
      obtain w' where "r = ((), w')" by (cases r) auto
      from deposit_success [OF S [unfolded this]] D show False by simp
    qed
  qed
next
  assume "endPrice (assetConfigMap (ledger v) (assetToken (idxPositionMap (ledger v) positionIndex))) \<noteq> 0"
    and "assetTokenm \<noteq> 0 \<and> owner (idxPositionMap (ledger v) positionIndex) = msgSender em
            \<and> assetTokenm = assetToken (idxPositionMap (ledger v) positionIndex)
            \<and> 0 < assetAmount'"
  then show "mint em positionIndex assetTokenm assetAmount' v = Inl (AssetDeprecated, v)"
    by (simp add: mint_def Let_def)
next
  assume "endPrice (assetConfigMap (ledger v) (assetToken (idxPositionMap (ledger v) positionIndex))) \<noteq> 0"
    and "collateralTokend \<noteq> 0 \<and> 0 < positionIndex
            \<and> owner (idxPositionMap (ledger v) positionIndex) = msgSender ed
            \<and> collateralToken (idxPositionMap (ledger v) positionIndex) = collateralTokend
            \<and> collateralAmountd \<noteq> 0"
  then show "deposit ed positionIndex collateralTokend collateralAmountd v = Inl (AssetDeprecated, v)"
    by (simp add: deposit_def Let_def)
qed


theorem registration_and_migration_witness:
  "token (assetConfigMap (ledger exMigrated) 2) \<noteq> 0
   \<and> onlyFactoryOrOwner (exEnv 10 (10 * unit)) (ledger exMigrated)
   \<and> registerMigration (exEnv 10 (10 * unit)) 2 (13 * unit) exMigrated
       = Inr ((), snd (transact (registerMigration (exEnv 10 (10 * unit)) 2 (13 * unit)) exMigrated))
   \<and> (2::nat) \<noteq> 0
   \<and> endPrice (assetConfigMap (ledger exMigrated) 2) \<noteq> 0
   \<and> endPrice (assetConfigMap (ledger exMigrated) (assetToken (idxPositionMap (ledger exMigrated) 1))) \<noteq> 0
   \<and> registerAsset (exEnv 10 (10 * unit)) 2 (unit div 5) (3 * unit div 2) exMigrated
       = Inl (AlreadyRegistered, exMigrated)
   \<and> queryAssetConfig
        (ledger (snd (transact (registerMigration (exEnv 10 (10 * unit)) 2 (13 * unit)) exMigrated))) 2
       = (unit div 5, unit, 13 * unit)
   \<and> openPosition (exEnv 11 (10 * unit)) 1 1500 2 (3 * unit div 2) exMigrated
       = Inl (AssetDeprecated, exMigrated\<lparr>calls := calls exMigrated @ [TransferFrom 1 11 100 1500]\<rparr>)
   \<and> mint (exEnv 11 (10 * unit)) 1 2 50 exMigrated = Inl (AssetDeprecated, exMigrated)
   \<and> deposit (exEnv 11 (10 * unit)) 1 1 500 exMigrated = Inl (AssetDeprecated, exMigrated)"
proof -
  have facts:
    "token (assetConfigMap (ledger exMigrated) 2) \<noteq> 0"
    "onlyFactoryOrOwner (exEnv 10 (10 * unit)) (ledger exMigrated)"
    "(2::nat) \<noteq> 0"
    "endPrice (assetConfigMap (ledger exMigrated) 2) \<noteq> 0"
    "endPrice (assetConfigMap (ledger exMigrated) (assetToken (idxPositionMap (ledger exMigrated) 1))) \<noteq> 0"
    by (simp_all add: exMigrated_def scenario_eval onlyFactoryOrOwner_def)
  have again: "registerMigration (exEnv 10 (10 * unit)) 2 (13 * unit) exMigrated
       = Inr ((), snd (transact (registerMigration (exEnv 10 (10 * unit)) 2 (13 * unit)) exMigrated))"
    by (simp add: exMigrated_def scenario_eval registerMigration_def onlyFactoryOrOwner_def)
  have args:
    "(1::nat) \<noteq> 0 \<and> (2::nat) \<noteq> 0 \<and> (0::nat) < 1500
     \<and> tokenCall (exEnv 11 (10 * unit)) (calls exMigrated)
          (TransferFrom 1 (msgSender (exEnv 11 (10 * unit))) (thisAddress (exEnv 11 (10 * unit))) 1500)
          = Returned True
     \<and> token (assetConfigMap (ledger exMigrated) 2) = 2"
    "(2::nat) \<noteq> 0 \<and> owner (idxPositionMap (ledger exMigrated) 1) = msgSender (exEnv 11 (10 * unit))
     \<and> (2::nat) = assetToken (idxPositionMap (ledger exMigrated) 1) \<and> (0::nat) < 50"
    "(1::nat) \<noteq> 0 \<and> (0::nat) < 1
     \<and> owner (idxPositionMap (ledger exMigrated) 1) = msgSender (exEnv 11 (10 * unit))
     \<and> collateralToken (idxPositionMap (ledger exMigrated) 1) = 1 \<and> (500::nat) \<noteq> 0"
    by (simp_all add: exMigrated_def scenario_eval)
  have env: "msgSender (exEnv 11 (10 * unit)) = 11" "thisAddress (exEnv 11 (10 * unit)) = 100"
    by (simp_all add: exEnv_def)
  note inst = registration_and_migration
      [where w = exMigrated and assetToken' = 2 and e = "exEnv 10 (10 * unit)"
         and auctionDiscount' = "unit div 5" and minCollateralRatio' = "3 * unit div 2"
         and endPrice' = "13 * unit"
         and w' = "snd (transact (registerMigration (exEnv 10 (10 * unit)) 2 (13 * unit)) exMigrated)"
         and v = exMigrated and migrated = 2 and eo = "exEnv 11 (10 * unit)"
         and collateralToken' = 1 and collateralAmount' = 1500 and collateralRatio = "3 * unit div 2"
         and em = "exEnv 11 (10 * unit)" and positionIndex = 1 and assetTokenm = 2 and assetAmount' = 50
         and ed = "exEnv 11 (10 * unit)" and collateralTokend = 1 and collateralAmountd = 500]
  have discount: "auctionDiscount (assetConfigMap (ledger exMigrated) 2) = unit div 5"
    by (simp add: exMigrated_def scenario_eval)
  from inst facts again args show ?thesis
    by (simp add: env discount)
qed

subsection \<open>When the auction refuses a position\<close>

lemma isValidPostion_Inl: "isValidPostion s p price = Inl err \<Longrightarrow> err = MathError"
  by (auto simp: isValidPostion_def split: option.splits)

lemma nf_if: "\<lbrakk>a \<noteq> Inl r; b \<noteq> Inl r\<rbrakk> \<Longrightarrow> (if c then a else b) \<noteq> Inl r"
  by simp

lemma nf_option: "\<lbrakk>a \<noteq> Inl r; \<And>x. k x \<noteq> Inl r\<rbrakk> \<Longrightarrow> (case m of None \<Rightarrow> a | Some x \<Rightarrow> k x) \<noteq> Inl r"
  by (cases m) simp_all

lemma nf_sum:
  "\<lbrakk>\<And>f. m = Inl f \<Longrightarrow> g f \<noteq> r; \<And>x. k x \<noteq> Inl r\<rbrakk>
     \<Longrightarrow> (case m of Inl f \<Rightarrow> Inl (g f) | Inr x \<Rightarrow> k x) \<noteq> Inl r"
  by (cases m) simp_all

lemma nf_prod: "(\<And>a b. k a b \<noteq> Inl r) \<Longrightarrow> (case p of (a, b) \<Rightarrow> k a b) \<noteq> Inl r"
  by (cases p) simp


lemma auction_PositionSafeD:
  assumes "auction e positionIndex requested w = Inl (PositionSafe, wx)"
  shows "isValidPostion (ledger w) (idxPositionMap (ledger w) positionIndex)
             (fst (oracleQueryPrice e (mOracle (ledger w))
                (assetToken (idxPositionMap (ledger w) positionIndex)))) = Inr True \<and> wx = w"
proof (cases "isValidPostion (ledger w) (idxPositionMap (ledger w) positionIndex)
             (fst (oracleQueryPrice e (mOracle (ledger w))
                (assetToken (idxPositionMap (ledger w) positionIndex))))")
  case (Inl err)
  with assms isValidPostion_Inl [OF Inl] show ?thesis
    by (simp add: auction_def Let_def)
next
  case (Inr valid)
  show ?thesis
  proof (cases valid)
    case True
    with assms Inr show ?thesis by (simp add: auction_def Let_def)
  next
    case False
    then have unsafe: "isValidPostion (ledger w) (idxPositionMap (ledger w) positionIndex)
             (fst (oracleQueryPrice e (mOracle (ledger w))
                (assetToken (idxPositionMap (ledger w) positionIndex)))) = Inr False"
      using Inr by simp
    have "auction e positionIndex requested w \<noteq> Inl (PositionSafe, wx)"
      unfolding auction_def Let_def unsafe
      apply (simp only: sum.case simp_thms if_False)
      apply (intro nf_if nf_option nf_sum nf_prod)
      apply (auto simp: callToken_Inl split: if_splits sum.splits prod.splits)
      done
    with assms show ?thesis by simp
  qed
qed

lemma queryPrice_ZeroPrice:
  "fst (readPrice e s target) = 0 \<or> fst (readPrice e s denominate) = 0 \<Longrightarrow>
     queryPrice e s target denominate = Inl ZeroPrice"
  by (auto simp: queryPrice_def Let_def split: prod.splits)

lemma queryPrice_StalePrice:
  "\<lbrakk>0 < fst (readPrice e s target); 0 < fst (readPrice e s denominate);
    fst (readPrice e s target) * unit \<le> MAX_UINT; mPriceExpireTime s \<le> blockTimestamp e;
    snd (readPrice e s target) < blockTimestamp e - mPriceExpireTime s
      \<or> snd (readPrice e s denominate) < blockTimestamp e - mPriceExpireTime s\<rbrakk>
   \<Longrightarrow> queryPrice e s target denominate = Inl StalePrice"
  by (auto simp: queryPrice_def Let_def divideDecimal_def mul_checked_def div_checked_def
        sub_checked_def split: prod.splits)

text \<open>
  What the check of the auction is in the code: \<open>auction\<close> fails with
  \<open>PositionSafe\<close> exactly when \<open>isValidPostion\<close> evaluates without arithmetic error
  to true on the stored position and the price the oracle quotes for the asset token,
  that is, the product \<open>assetAmount * assetPrice\<close> (truncated to the unit) is not zero
  and \<open>collateralAmount / (assetAmount * assetPrice)\<close>, truncated, is at least the
  minimum collateral ratio. The relative-price computation \<open>queryPrice\<close> of
  \<open>openPosition\<close>, \<open>withdraw\<close> and \<open>mint\<close> fails with \<open>ZeroPrice\<close> when either
  leg is zero, and with \<open>StalePrice\<close> when both legs are nonzero, the quotient is
  computable, the expiry time does not exceed the block time and either leg was last
  updated before \<open>now - priceExpireTime\<close>.
\<close>

lemma auction_PositionSafe_iff_isValidPostion:
  "((\<exists>wx. auction e positionIndex requested w = Inl (PositionSafe, wx))
      \<longleftrightarrow> isValidPostion (ledger w) (idxPositionMap (ledger w) positionIndex)
            (fst (oracleQueryPrice e (mOracle (ledger w))
               (assetToken (idxPositionMap (ledger w) positionIndex)))) = Inr True)
   \<and> (isValidPostion s position assetPrice = Inr True
        \<longleftrightarrow> assetAmount position * assetPrice \<le> MAX_UINT
            \<and> collateralAmount position * unit \<le> MAX_UINT
            \<and> assetAmount position * assetPrice div unit \<noteq> 0
            \<and> minCollateralRatio (assetConfigMap s (assetToken position))
                 \<le> collateralAmount position * unit div (assetAmount position * assetPrice div unit))
   \<and> (fst (readPrice ez sz targetz) = 0 \<or> fst (readPrice ez sz denominatez) = 0 \<longrightarrow>
        queryPrice ez sz targetz denominatez = Inl ZeroPrice)
   \<and> (0 < fst (readPrice e s target) \<and> 0 < fst (readPrice e s denominate)
        \<and> fst (readPrice e s target) * unit \<le> MAX_UINT
        \<and> mPriceExpireTime s \<le> blockTimestamp e
        \<and> (snd (readPrice e s target) < blockTimestamp e - mPriceExpireTime s
             \<or> snd (readPrice e s denominate) < blockTimestamp e - mPriceExpireTime s) \<longrightarrow>
        queryPrice e s target denominate = Inl StalePrice)"
proof (intro conjI impI)
  show "(\<exists>wx. auction e positionIndex requested w = Inl (PositionSafe, wx))
      \<longleftrightarrow> isValidPostion (ledger w) (idxPositionMap (ledger w) positionIndex)
            (fst (oracleQueryPrice e (mOracle (ledger w))
               (assetToken (idxPositionMap (ledger w) positionIndex)))) = Inr True"
  proof
    assume "\<exists>wx. auction e positionIndex requested w = Inl (PositionSafe, wx)"
    then show "isValidPostion (ledger w) (idxPositionMap (ledger w) positionIndex)
            (fst (oracleQueryPrice e (mOracle (ledger w))
               (assetToken (idxPositionMap (ledger w) positionIndex)))) = Inr True"
      using auction_PositionSafeD by blast
  next
    assume "isValidPostion (ledger w) (idxPositionMap (ledger w) positionIndex)
            (fst (oracleQueryPrice e (mOracle (ledger w))
               (assetToken (idxPositionMap (ledger w) positionIndex)))) = Inr True"
    then have "auction e positionIndex requested w = Inl (PositionSafe, w)"
      by (simp add: auction_def Let_def)
    then show "\<exists>wx. auction e positionIndex requested w = Inl (PositionSafe, wx)" ..
  qed
next
  show "isValidPostion s position assetPrice = Inr True
        \<longleftrightarrow> assetAmount position * assetPrice \<le> MAX_UINT
            \<and> collateralAmount position * unit \<le> MAX_UINT
            \<and> assetAmount position * assetPrice div unit \<noteq> 0
            \<and> minCollateralRatio (assetConfigMap s (assetToken position))
                 \<le> collateralAmount position * unit div (assetAmount position * assetPrice div unit)"
    by (simp add: isValidPostion_Inr)
next
  assume "fst (readPrice ez sz targetz) = 0 \<or> fst (readPrice ez sz denominatez) = 0"
  then show "queryPrice ez sz targetz denominatez = Inl ZeroPrice"
    by (rule queryPrice_ZeroPrice)
next
  assume "0 < fst (readPrice e s target) \<and> 0 < fst (readPrice e s denominate)
        \<and> fst (readPrice e s target) * unit \<le> MAX_UINT
        \<and> mPriceExpireTime s \<le> blockTimestamp e
        \<and> (snd (readPrice e s target) < blockTimestamp e - mPriceExpireTime s
             \<or> snd (readPrice e s denominate) < blockTimestamp e - mPriceExpireTime s)"
  then show "queryPrice e s target denominate = Inl StalePrice"
    by (intro queryPrice_StalePrice) simp_all
qed


lemma exForeignCollateral_reached:
  "transact (openPosition (exEnvCollateralPrice 11 (unit div 10)) 3 1500 2 (3 * unit div 2))
     exConfigured = (Inr 1, exForeignCollateral)"
  by (simp add: scenario_eval openPosition_def exEnvCollateralPrice_def exForeignCollateral_def
        fun_eq_iff)

text \<open>
  C1. The auction must refuse a position as safe exactly when the position is valid by
  the shared solvency predicate: the collateral against the debt valued at the price of
  the asset relative to the price of the collateral, where a stale leg is the failure
  \<open>StalePrice\<close> and a zero leg the failure \<open>ZeroPrice\<close>. The auction reads only the
  raw quote of the asset. When the collateral token \<open>3\<close> has fallen to \<open>0.05\<close>, the
  position of \<open>exForeignCollateral\<close> is invalid by the predicate (its ratio is
  \<open>0.75\<close>), yet the auction refuses it as safe. On a quote of \<open>10\<close> last updated at
  time \<open>0\<close>, \<open>withdraw\<close> fails with \<open>StalePrice\<close> and the auction answers
  \<open>PositionSafe\<close>; on a quote of \<open>12\<close> of the same age, \<open>withdraw\<close> and \<open>mint\<close>
  fail with \<open>StalePrice\<close> and the auction liquidates the position. On a zero quote
  \<open>withdraw\<close> fails with \<open>ZeroPrice\<close> and the auction with an arithmetic error.
\<close>

theorem auction_ignores_collateral_price_and_staleness:
  "spec_validPosition (exEnvCollateralPrice 12 (unit div 20)) (ledger exForeignCollateral)
       (idxPositionMap (ledger exForeignCollateral) 1) = Inr False
   \<and> auction (exEnvCollateralPrice 12 (unit div 20)) 1 100 exForeignCollateral
       = Inl (PositionSafe, exForeignCollateral)
   \<and> spec_validPosition (exEnvStale 12 (10 * unit)) (ledger exOpened)
       (idxPositionMap (ledger exOpened) 1) = Inl StalePrice
   \<and> withdraw (exEnvStale 11 (10 * unit)) 1 1 500 exOpened = Inl (StalePrice, exOpened)
   \<and> auction (exEnvStale 12 (10 * unit)) 1 100 exOpened = Inl (PositionSafe, exOpened)
   \<and> withdraw (exEnvStale 11 (12 * unit)) 1 1 500 exOpened = Inl (StalePrice, exOpened)
   \<and> mint (exEnvStale 11 (12 * unit)) 1 2 50 exOpened = Inl (StalePrice, exOpened)
   \<and> fst (transact (auction (exEnvStale 12 (12 * unit)) 1 100) exOpened) = Inr ()
   \<and> idxPositionMap (ledger (snd (transact (auction (exEnvStale 12 (12 * unit)) 1 100) exOpened))) 1
       = zeroPosition
   \<and> calls (snd (transact (auction (exEnvStale 12 (12 * unit)) 1 100) exOpened))
       = calls exOpened @ [TransferFrom 2 12 100 100, Transfer 1 70 22, Transfer 1 12 1478]
   \<and> withdraw (exEnv 11 0) 1 1 500 exOpened = Inl (ZeroPrice, exOpened)
   \<and> auction (exEnv 12 0) 1 100 exOpened = Inl (MathError, exOpened)"
  by (simp add: scenario_eval auction_def withdraw_def mint_def exEnvCollateralPrice_def
        exEnvStale_def exForeignCollateral_def spec_validPosition_def spec_relativePrice_def)

subsection \<open>Failed calls\<close>

lemma queryPrice_Inl_cases:
  "queryPrice e s target denominate = Inl err \<Longrightarrow> err = ZeroPrice \<or> err = MathError \<or> err = StalePrice"
  by (auto simp: queryPrice_def Let_def split: prod.splits if_splits option.splits)

lemma transact_failure: "fst (transact operation w) = Inl err \<Longrightarrow> snd (transact operation w) = w"
  by (auto simp: transact_def split: sum.splits prod.splits)

lemma openPosition_failure:
  assumes F: "openPosition e collateralToken' collateralAmount' assetToken' collateralRatio w = Inl (err, wx)"
  shows "(err \<noteq> ExternalRevert \<longrightarrow> ledger wx = ledger w)
       \<and> (err \<in> {NotRegistered, AssetDeprecated, BelowMinimumRatio, AmountTooSmall} \<longrightarrow>
            wx = w\<lparr>calls := calls w @ [TransferFrom collateralToken' (msgSender e) (thisAddress e)
                                         collateralAmount']\<rparr>
            \<and> tokenCall e (calls w)
                 (TransferFrom collateralToken' (msgSender e) (thisAddress e) collateralAmount')
                 = Returned True)"
proof -
  define P where "P = (\<lambda>err wx.
         (err \<noteq> ExternalRevert \<longrightarrow> ledger wx = ledger w)
       \<and> (err \<in> {NotRegistered, AssetDeprecated, BelowMinimumRatio, AmountTooSmall} \<longrightarrow>
            wx = w\<lparr>calls := calls w @ [TransferFrom collateralToken' (msgSender e) (thisAddress e)
                                         collateralAmount']\<rparr>
            \<and> tokenCall e (calls w)
                 (TransferFrom collateralToken' (msgSender e) (thisAddress e) collateralAmount')
                 = Returned True))"
  define Q where "Q = (\<lambda>r :: nat result. \<forall>err wx. r = Inl (err, wx) \<longrightarrow> P err wx)"
  have fl_if: "\<And>c a b. (c \<Longrightarrow> Q a) \<Longrightarrow> (\<not> c \<Longrightarrow> Q b) \<Longrightarrow> Q (if c then a else b)"
    by simp
  have fl_option: "\<And>(m :: nat option) a k. (m = None \<Longrightarrow> Q a) \<Longrightarrow> (\<And>x. m = Some x \<Longrightarrow> Q (k x))
                     \<Longrightarrow> Q (case m of None \<Rightarrow> a | Some x \<Rightarrow> k x)"
    by (simp split: option.split)
  have fl_call: "\<And>(m :: bool result) g k. (\<And>f. m = Inl f \<Longrightarrow> Q (Inl (g f))) \<Longrightarrow> (\<And>x. m = Inr x \<Longrightarrow> Q (k x))
                     \<Longrightarrow> Q (case m of Inl f \<Rightarrow> Inl (g f) | Inr x \<Rightarrow> k x)"
    by (simp split: sum.split)
  have fl_price: "\<And>(m :: error + nat) g k. (\<And>f. m = Inl f \<Longrightarrow> Q (Inl (g f))) \<Longrightarrow> (\<And>x. m = Inr x \<Longrightarrow> Q (k x))
                     \<Longrightarrow> Q (case m of Inl f \<Rightarrow> Inl (g f) | Inr x \<Rightarrow> k x)"
    by (simp split: sum.split)
  have fl_prod: "\<And>(p :: bool \<times> world) k. (\<And>a b. p = (a, b) \<Longrightarrow> Q (k a b))
                     \<Longrightarrow> Q (case p of (a, b) \<Rightarrow> k a b)"
    by (simp split: prod.split)
  have "Q (openPosition e collateralToken' collateralAmount' assetToken' collateralRatio w)"
    unfolding openPosition_def Let_def
    apply (intro fl_if fl_option fl_call fl_price fl_prod)
    apply (auto simp: Q_def P_def callToken_Inr callToken_Inl dest: queryPrice_Inl_cases)
    done
  with F show ?thesis
    unfolding Q_def P_def by blast
qed


text \<open>
  C3, as amended. A call that fails leaves the world (ledger and token calls) exactly as
  it was, whatever the operation: the failure reverts the whole call. In
  \<open>openPosition\<close> the checks that the asset is registered, not migrated, that the
  collateral ratio is at least the minimum and that the minted amount is positive come
  after the transfer of the collateral from the caller has been issued and has
  succeeded (only the checks of the arguments precede it) and before any write to the
  ledger: when one of them fails, the ledger is untouched and that transfer is the only
  call issued. No failure of \<open>openPosition\<close> other than a revert inside a token
  finds the ledger written.
\<close>

theorem failed_calls_revert_and_openPosition_staging:
  "(fst (transact operation w) = Inl err \<longrightarrow> snd (transact operation w) = w)
   \<and> (openPosition e collateralToken' collateralAmount' assetToken' collateralRatio v = Inl (err', vx)
        \<and> err' \<in> {NotRegistered, AssetDeprecated, BelowMinimumRatio, AmountTooSmall} \<longrightarrow>
        ledger vx = ledger v
        \<and> calls vx = calls v @ [TransferFrom collateralToken' (msgSender e) (thisAddress e)
                                  collateralAmount']
        \<and> tokenCall e (calls v)
             (TransferFrom collateralToken' (msgSender e) (thisAddress e) collateralAmount')
             = Returned True
        \<and> collateralToken' \<noteq> 0 \<and> assetToken' \<noteq> 0 \<and> 0 < collateralAmount')
   \<and> (openPosition e collateralToken' collateralAmount' assetToken' collateralRatio v = Inl (err', vx)
        \<and> err' \<noteq> ExternalRevert \<longrightarrow> ledger vx = ledger v)"
proof (intro conjI impI)
  assume "fst (transact operation w) = Inl err"
  then show "snd (transact operation w) = w"
    by (rule transact_failure)
next
  assume F: "openPosition e collateralToken' collateralAmount' assetToken' collateralRatio v = Inl (err', vx)
        \<and> err' \<in> {NotRegistered, AssetDeprecated, BelowMinimumRatio, AmountTooSmall}"
  with openPosition_failure [of e collateralToken' collateralAmount' assetToken' collateralRatio v err' vx]
  have vx: "vx = v\<lparr>calls := calls v @ [TransferFrom collateralToken' (msgSender e) (thisAddress e)
                                         collateralAmount']\<rparr>"
    and ok: "tokenCall e (calls v)
             (TransferFrom collateralToken' (msgSender e) (thisAddress e) collateralAmount')
             = Returned True"
    by blast+
  show "ledger vx = ledger v"
    and "calls vx = calls v @ [TransferFrom collateralToken' (msgSender e) (thisAddress e)
                                  collateralAmount']"
    by (simp_all add: vx)
  show "tokenCall e (calls v)
             (TransferFrom collateralToken' (msgSender e) (thisAddress e) collateralAmount')
             = Returned True"
    by (rule ok)
  have args: "collateralToken' \<noteq> 0 \<and> assetToken' \<noteq> 0 \<and> 0 < collateralAmount'"
  proof (rule ccontr)
    assume "\<not> (collateralToken' \<noteq> 0 \<and> assetToken' \<noteq> 0 \<and> 0 < collateralAmount')"
    then have "openPosition e collateralToken' collateralAmount' assetToken' collateralRatio v
                 = Inl (InvalidParameter, v)"
      by (auto simp: openPosition_def Let_def)
    with F show False by auto
  qed
  then show "collateralToken' \<noteq> 0" and "assetToken' \<noteq> 0" and "0 < collateralAmount'"
    by simp_all
next
  assume "openPosition e collateralToken' collateralAmount' assetToken' collateralRatio v = Inl (err', vx)
        \<and> err' \<noteq> ExternalRevert"
  with openPosition_failure [of e collateralToken' collateralAmount' assetToken' collateralRatio v err' vx]
  show "ledger vx = ledger v"
    by blast
qed

text \<open>
  The claim as stated fails: opening a position for the unregistered asset \<open>9\<close> is
  rejected by the registration check only after the transfer of the collateral was
  issued.
\<close>

theorem openPosition_transfers_before_validation_counterexample:
  "calls exConfigured = []
   \<and> openPosition (exEnv 11 (10 * unit)) 1 1500 9 (3 * unit div 2) exConfigured
       = Inl (NotRegistered, exConfigured\<lparr>calls := [TransferFrom 1 11 100 1500]\<rparr>)"
  by (simp add: scenario_eval openPosition_def)

theorem failed_calls_revert_and_openPosition_staging_witness:
  "fst (transact (openPosition (exEnv 11 (10 * unit)) 1 1500 9 (3 * unit div 2)) exConfigured)
     = Inl NotRegistered
   \<and> openPosition (exEnv 11 (10 * unit)) 1 1500 9 (3 * unit div 2) exConfigured
       = Inl (NotRegistered, exConfigured\<lparr>calls := [TransferFrom 1 11 100 1500]\<rparr>)
   \<and> NotRegistered \<in> {NotRegistered, AssetDeprecated, BelowMinimumRatio, AmountTooSmall}
   \<and> NotRegistered \<noteq> ExternalRevert
   \<and> snd (transact (openPosition (exEnv 11 (10 * unit)) 1 1500 9 (3 * unit div 2)) exConfigured)
       = exConfigured
   \<and> ledger (exConfigured\<lparr>calls := [TransferFrom 1 11 100 1500]\<rparr>) = ledger exConfigured
   \<and> tokenCall (exEnv 11 (10 * unit)) (calls exConfigured) (TransferFrom 1 11 100 1500)
       = Returned True"
proof -
  have failed: "openPosition (exEnv 11 (10 * unit)) 1 1500 9 (3 * unit div 2) exConfigured
       = Inl (NotRegistered, exConfigured\<lparr>calls := [TransferFrom 1 11 100 1500]\<rparr>)"
    by (simp add: scenario_eval openPosition_def)
  then have reverted: "fst (transact (openPosition (exEnv 11 (10 * unit)) 1 1500 9 (3 * unit div 2))
                              exConfigured) = Inl NotRegistered"
    by (simp add: transact_def)
  have env: "msgSender (exEnv 11 (10 * unit)) = 11" "thisAddress (exEnv 11 (10 * unit)) = 100"
    by (simp_all add: exEnv_def)
  note inst = failed_calls_revert_and_openPosition_staging
      [where operation = "openPosition (exEnv 11 (10 * unit)) 1 1500 9 (3 * unit div 2)"
         and w = exConfigured and err = NotRegistered
         and e = "exEnv 11 (10 * unit)" and collateralToken' = 1 and collateralAmount' = 1500
         and assetToken' = 9 and collateralRatio = "3 * unit div 2" and v = exConfigured
         and err' = NotRegistered and vx = "exConfigured\<lparr>calls := [TransferFrom 1 11 100 1500]\<rparr>"]
  from inst failed reverted show ?thesis
    by (simp add: env exConfigured_def)
qed

end
